theory Spec2Isabelle
  imports Complex_Main "HOL-Library.Word"
begin

section \<open>Python values used by \<open>redherring/distractor_env.py\<close>\<close>

text \<open>
  The wrapper \<open>DMCWrapper\<close> adapts a control-suite environment to the gym interface.
  Every \<open>raise\<close> and every failing \<open>assert\<close> of the source is a value \<open>Inl e\<close> of the
  model; a normal return is \<open>Inr r\<close>.
\<close>

datatype exn =
    AssertionError string
  | TypeError
  | ValueError
  | IndexError
  | AttributeError string
  | UnboundLocalError
  | Exception string

subsection \<open>Floating-point values\<close>

text \<open>
  A float is not-a-number, an infinity or a finite number. The infinities are in the
  source (\<open>np.inf * np.ones(dim)\<close> in \<open>_spec_to_box\<close>), so the model has them, with
  the IEEE rules for them. Arithmetic on finite numbers is exact real arithmetic:
  rounding to binary32 or binary64, overflow and the sign of zero are not represented,
  and \<open>astype(np.float64)\<close>, \<open>astype(np.float32)\<close> are the identity on these values.
\<close>

datatype fval = NaN | NInf | PInf | Fin real

fun fneg :: "fval \<Rightarrow> fval" where
  "fneg NaN = NaN"
| "fneg NInf = PInf"
| "fneg PInf = NInf"
| "fneg (Fin x) = Fin (- x)"

fun fadd :: "fval \<Rightarrow> fval \<Rightarrow> fval" where
  "fadd NaN b = NaN"
| "fadd a NaN = NaN"
| "fadd PInf NInf = NaN"
| "fadd NInf PInf = NaN"
| "fadd PInf b = PInf"
| "fadd a PInf = PInf"
| "fadd NInf b = NInf"
| "fadd a NInf = NInf"
| "fadd (Fin x) (Fin y) = Fin (x + y)"

definition fsub :: "fval \<Rightarrow> fval \<Rightarrow> fval" where
  "fsub a b = fadd a (fneg b)"

fun fmul :: "fval \<Rightarrow> fval \<Rightarrow> fval" where
  "fmul NaN b = NaN"
| "fmul a NaN = NaN"
| "fmul (Fin x) (Fin y) = Fin (x * y)"
| "fmul (Fin x) PInf = (if x = 0 then NaN else if 0 < x then PInf else NInf)"
| "fmul (Fin x) NInf = (if x = 0 then NaN else if 0 < x then NInf else PInf)"
| "fmul PInf (Fin y) = (if y = 0 then NaN else if 0 < y then PInf else NInf)"
| "fmul NInf (Fin y) = (if y = 0 then NaN else if 0 < y then NInf else PInf)"
| "fmul PInf PInf = PInf"
| "fmul PInf NInf = NInf"
| "fmul NInf PInf = NInf"
| "fmul NInf NInf = PInf"

fun fdiv :: "fval \<Rightarrow> fval \<Rightarrow> fval" where
  "fdiv NaN b = NaN"
| "fdiv a NaN = NaN"
| "fdiv (Fin x) (Fin y) =
     (if y = 0 then (if x = 0 then NaN else if 0 < x then PInf else NInf)
      else Fin (x / y))"
| "fdiv (Fin x) PInf = Fin 0"
| "fdiv (Fin x) NInf = Fin 0"
| "fdiv PInf (Fin y) = (if 0 \<le> y then PInf else NInf)"
| "fdiv NInf (Fin y) = (if 0 \<le> y then NInf else PInf)"
| "fdiv PInf PInf = NaN"
| "fdiv PInf NInf = NaN"
| "fdiv NInf PInf = NaN"
| "fdiv NInf NInf = NaN"

text \<open>\<open>a <= b\<close> on floats: every comparison with not-a-number is false.\<close>

fun fle :: "fval \<Rightarrow> fval \<Rightarrow> bool" where
  "fle NaN b = False"
| "fle a NaN = False"
| "fle NInf b = True"
| "fle a PInf = True"
| "fle PInf b = False"
| "fle a NInf = False"
| "fle (Fin x) (Fin y) = (x \<le> y)"

fun is_finite :: "fval \<Rightarrow> bool" where
  "is_finite (Fin x) = True"
| "is_finite NaN = False"
| "is_finite NInf = False"
| "is_finite PInf = False"

subsection \<open>The gym space \<open>Box\<close> over one-dimensional float arrays\<close>

record box =
  low :: "fval list"
  high :: "fval list"

text \<open>
  \<open>Box.contains(x)\<close>: the shape of \<open>x\<close> is the shape of the box, \<open>x >= low\<close> and
  \<open>x <= high\<close> everywhere.
\<close>

definition contains :: "box \<Rightarrow> fval list \<Rightarrow> bool" where
  "contains b x =
     (length x = length (low b) \<and> list_all2 fle (low b) x \<and> list_all2 fle x (high b))"

subsection \<open>The specs of \<open>dm_env\<close> and \<open>_spec_to_box\<close>\<close>

datatype dtype = Float32 | Float64 | OtherDType

text \<open>
  A spec is exactly a \<open>specs.Array\<close>, exactly a \<open>specs.BoundedArray\<close> (with its minimum
  and maximum, a scalar being a list of length one) or of some other type, such as a
  subclass of these: the source compares \<open>type(s)\<close> with \<open>==\<close>.
\<close>

datatype spec =
    Array dtype "nat list"
  | BoundedArray dtype "nat list" "fval list" "fval list"
  | OtherSpec dtype "nat list"

fun spec_dtype :: "spec \<Rightarrow> dtype" where
  "spec_dtype (Array d sh) = d"
| "spec_dtype (BoundedArray d sh mn mx) = d"
| "spec_dtype (OtherSpec d sh) = d"

fun spec_shape :: "spec \<Rightarrow> nat list" where
  "spec_shape (Array d sh) = sh"
| "spec_shape (BoundedArray d sh mn mx) = sh"
| "spec_shape (OtherSpec d sh) = sh"

text \<open>
  \<open>m + zeros\<close> where \<open>zeros\<close> has length \<open>dim\<close>: numpy broadcasts a length-one operand
  and raises \<open>ValueError\<close> when the lengths differ otherwise.
\<close>

definition add_zeros :: "fval list \<Rightarrow> nat \<Rightarrow> exn + fval list" where
  "add_zeros m dimn =
     (if length m = dimn then Inr (map (\<lambda>x. fadd x (Fin 0)) m)
      else if length m = 1 then Inr (replicate dimn (fadd (hd m) (Fin 0)))
      else if dimn = 1 then Inr (map (\<lambda>x. fadd x (Fin 0)) m)
      else Inl ValueError)"

text \<open>
  \<open>extract_min_max\<close>: the result \<open>Inr None\<close> is Python's \<open>None\<close>, returned when neither
  branch of the \<open>if\<close>/\<open>elif\<close> is taken.
\<close>

definition extract_min_max :: "spec \<Rightarrow> exn + (fval list \<times> fval list) option" where
  "extract_min_max s =
     (if \<not> (spec_dtype s = Float64 \<or> spec_dtype s = Float32) then Inl (AssertionError [])
      else
        let dimn = prod_list (spec_shape s) in
        (case s of
           Array d sh \<Rightarrow> Inr (Some (replicate dimn NInf, replicate dimn PInf))
         | BoundedArray d sh mn mx \<Rightarrow>
             (case add_zeros mn dimn of
                Inl e \<Rightarrow> Inl e
              | Inr lo \<Rightarrow>
                  (case add_zeros mx dimn of
                     Inl e \<Rightarrow> Inl e
                   | Inr hi \<Rightarrow> Inr (Some (lo, hi))))
         | OtherSpec d sh \<Rightarrow> Inr None))"

text \<open>The loop \<open>for s in spec\<close>; unpacking \<open>None\<close> into \<open>mn, mx\<close> is a \<open>TypeError\<close>.\<close>

fun spec_loop ::
  "spec list \<Rightarrow> fval list list \<times> fval list list \<Rightarrow> exn + (fval list list \<times> fval list list)"
where
  "spec_loop [] acc = Inr acc"
| "spec_loop (s # ss) (mins, maxs) =
     (case extract_min_max s of
        Inl e \<Rightarrow> Inl e
      | Inr None \<Rightarrow> Inl TypeError
      | Inr (Some (mn, mx)) \<Rightarrow> spec_loop ss (mins @ [mn], maxs @ [mx]))"

text \<open>\<open>np.concatenate\<close> of no array at all raises \<open>ValueError\<close>.\<close>

definition spec_to_box :: "spec list \<Rightarrow> exn + box" where
  "spec_to_box specs =
     (case spec_loop specs ([], []) of
        Inl e \<Rightarrow> Inl e
      | Inr (mins, maxs) \<Rightarrow>
          if mins = [] then Inl ValueError
          else
            let lo = concat mins; hi = concat maxs in
            if length lo \<noteq> length hi then Inl (AssertionError [])
            else Inr \<lparr>low = lo, high = hi\<rparr>)"

section \<open>Arrays of the observations\<close>

subsection \<open>Rendered frames\<close>

text \<open>
  \<open>physics.render\<close> returns a \<open>uint8\<close> array of shape \<open>(H, W, 3)\<close>: a list of \<open>H\<close> rows
  of \<open>W\<close> pixels, a pixel being its three channels \<open>obs[i, j, 0]\<close>, \<open>obs[i, j, 1]\<close>,
  \<open>obs[i, j, 2]\<close>.
\<close>

datatype pixel = Pixel (ch0: "8 word") (ch1: "8 word") (ch2: "8 word")

type_synonym frame = "pixel list list"

definition has_shape2 :: "nat \<Rightarrow> nat \<Rightarrow> 'a list list \<Rightarrow> bool" where
  "has_shape2 h w a = (length a = h \<and> (\<forall>row \<in> set a. length row = w))"

definition has_shape3 :: "nat \<Rightarrow> nat \<Rightarrow> nat \<Rightarrow> 'a list list list \<Rightarrow> bool" where
  "has_shape3 c h w a = (length a = c \<and> (\<forall>plane \<in> set a. has_shape2 h w plane))"

text \<open>
  \<open>np.logical_and((obs[:, :, 2] > obs[:, :, 1]), (obs[:, :, 2] > obs[:, :, 0]))\<close>:
  the comparisons are those of unsigned bytes.
\<close>

definition mask_of :: "frame \<Rightarrow> bool list list" where
  "mask_of obs = map (map (\<lambda>p. ch2 p > ch1 p \<and> ch2 p > ch0 p)) obs"

text \<open>
  \<open>obs[mask] = bg[mask]\<close>. The background is read as the assignment reads it, one
  pixel of three bytes for each position. Indexing \<open>bg\<close> with a boolean mask of another
  shape raises \<open>IndexError\<close>.
\<close>

definition masked_assign :: "frame \<Rightarrow> bool list list \<Rightarrow> frame \<Rightarrow> exn + frame" where
  "masked_assign obs msk bg =
     (if \<not> list_all2 (\<lambda>mrow brow. length mrow = length brow) msk bg then Inl IndexError
      else Inr (map2 (\<lambda>orow (mrow, brow).
                  map2 (\<lambda>p (m, b). if m then b else p) orow (zip mrow brow))
                obs (zip msk bg)))"

text \<open>\<open>obs.transpose(2, 0, 1)\<close>: from \<open>(H, W, 3)\<close> to \<open>(3, H, W)\<close>.\<close>

definition transpose_2_0_1 :: "frame \<Rightarrow> 8 word list list list" where
  "transpose_2_0_1 obs = [map (map ch0) obs, map (map ch1) obs, map (map ch2) obs]"


subsection \<open>The observation dict and \<open>_flatten_obs\<close>\<close>

text \<open>
  A value of the observation dict is a scalar (\<open>np.isscalar(v)\<close>) or an array, given by
  its shape and its elements in row-major order, which is what \<open>v.ravel()\<close> returns.
  The dict is ordered: a list of its items.
\<close>

datatype obs_value = Scalar fval | NDArray "nat list" "fval list"

fun np_size :: "obs_value \<Rightarrow> nat" where
  "np_size (Scalar v) = 1"
| "np_size (NDArray shp elems) = prod_list shp"

fun well_shaped :: "obs_value \<Rightarrow> bool" where
  "well_shaped (Scalar v) = True"
| "well_shaped (NDArray shp elems) = (length elems = prod_list shp)"

fun flat :: "obs_value \<Rightarrow> fval list" where
  "flat (Scalar v) = [v]"
| "flat (NDArray shp elems) = elems"

fun flatten_loop :: "obs_value list \<Rightarrow> fval list list \<Rightarrow> fval list list" where
  "flatten_loop [] obs_pieces = obs_pieces"
| "flatten_loop (v # vs) obs_pieces = flatten_loop vs (obs_pieces @ [flat v])"

definition flatten_obs :: "(string \<times> obs_value) list \<Rightarrow> exn + fval list" where
  "flatten_obs obs =
     (let obs_pieces = flatten_loop (map snd obs) [] in
      if obs_pieces = [] then Inl ValueError else Inr (concat obs_pieces))"

datatype observation = Pixels "8 word list list list" | Flat "fval list"

section \<open>The wrapped environment and the other libraries\<close>

record time_step =
  ts_reward :: "fval option"
  ts_discount :: "fval option"
  ts_observation :: "(string \<times> obs_value) list"
  ts_last :: bool

datatype kwarg = KNone | KInt int | KStr string

record init_args =
  arg_robot_name :: string
  arg_task_name :: string
  arg_distractor_files :: string
  arg_distractor_type :: "string option"
  arg_total_frames :: nat
  arg_task_kwargs :: "(string \<rightharpoonup> kwarg) option"
  arg_from_pixels :: bool
  arg_height :: nat
  arg_width :: nat
  arg_camera_id :: int
  arg_frame_skip :: int
  arg_environment_kwargs :: "(string \<rightharpoonup> kwarg) option"

text \<open>The four classes of \<open>redherring.distractor_source\<close>, by their constructor calls.\<close>

datatype bg_source =
    RandomColorSource "nat \<times> nat"
  | NoiseSource "nat \<times> nat"
  | RandomImageSource "nat \<times> nat" "string list" bool nat
  | RandomVideoSource "nat \<times> nat" "string list" bool nat

text \<open>
  What the wrapper calls and does not define: the suite's \<open>load\<close> and the environment
  it returns (a state \<open>'s\<close>, changed by \<open>step\<close> and \<open>reset\<close>), \<open>glob.glob\<close> after
  \<open>os.path.expanduser\<close>, and \<open>get_image\<close> of a background source, whose own state
  (its random generator, its frame counter) is \<open>'g\<close>. They are parameters of the model.
\<close>

record ('s, 'g, 'v) world =
  suite_load :: "init_args \<Rightarrow> 's"
  action_spec :: "'s \<Rightarrow> spec"
  observation_spec :: "'s \<Rightarrow> (string \<times> spec) list"
  env_step :: "'s \<Rightarrow> fval list \<Rightarrow> 's \<times> time_step"
  env_reset :: "'s \<Rightarrow> 's \<times> time_step"
  physics_get_state :: "'s \<Rightarrow> fval list"
  physics_render :: "'s \<Rightarrow> nat \<Rightarrow> nat \<Rightarrow> int \<Rightarrow> frame"
  env_getattr :: "'s \<Rightarrow> string \<Rightarrow> 'v option"
  glob_glob :: "string \<Rightarrow> string list"
  source_init :: "bg_source \<Rightarrow> 'g"
  get_image :: "bg_source \<Rightarrow> 'g \<Rightarrow> frame \<times> 'g"

section \<open>The class \<open>DMCWrapper\<close>\<close>

text \<open>
  The observation space is \<open>Box(low=0, high=255, shape=[3, height, width], dtype=uint8)\<close>
  or the box of \<open>_spec_to_box\<close>.
\<close>

datatype obs_space = PixelBox nat nat "nat list" | FloatBox box

text \<open>
  The attributes \<open>self._x\<close> of an instance are the fields \<open>self_x\<close>. \<open>self_bg_source\<close>
  is \<open>None\<close> when \<open>__init__\<close> never assigns \<open>self._bg_source\<close>. \<open>self_seed\<close> is the seed
  that \<open>seed\<close> gave to the three spaces.
\<close>

record ('s, 'g) DMCWrapper =
  self_from_pixels :: bool
  self_height :: nat
  self_width :: nat
  self_camera_id :: int
  self_frame_skip :: int
  self_img_source :: "string option"
  self_env :: 's
  self_true_action_space :: box
  self_norm_action_space :: box
  self_observation_space :: obs_space
  self_internal_state_space :: box
  self_bg_source :: "(bg_source \<times> 'g) option"
  self_seed :: kwarg

subsection \<open>\<open>__init__\<close>\<close>

text \<open>Lines 106 to 123 of the source: the background source.\<close>

definition init_background ::
  "('s, 'g, 'v) world \<Rightarrow> init_args \<Rightarrow> exn + (bg_source \<times> 'g) option" where
  "init_background X args =
     (case arg_distractor_type args of
        None \<Rightarrow> Inr None
      | Some distractor_type \<Rightarrow>
          let shape2d = (arg_height args, arg_width args) in
          if distractor_type = ''color'' then
            Inr (Some (RandomColorSource shape2d, source_init X (RandomColorSource shape2d)))
          else if distractor_type = ''noise'' then
            Inr (Some (NoiseSource shape2d, source_init X (NoiseSource shape2d)))
          else
            let files = glob_glob X (arg_distractor_files args) in
            if length files = 0 then
              Inl (AssertionError
                (''Pattern '' @ arg_distractor_files args @ '' does not match any files''))
            else if distractor_type = ''images'' then
              Inr (Some (RandomImageSource shape2d files True (arg_total_frames args),
                         source_init X
                           (RandomImageSource shape2d files True (arg_total_frames args))))
            else if distractor_type = ''video'' then
              Inr (Some (RandomVideoSource shape2d files True (arg_total_frames args),
                         source_init X
                           (RandomVideoSource shape2d files True (arg_total_frames args))))
            else Inl (Exception (''img_source '' @ distractor_type @ '' not defined.'')))"

text \<open>Lines 90 to 97: the observation space.\<close>

definition init_observation_space ::
  "('s, 'g, 'v) world \<Rightarrow> init_args \<Rightarrow> 's \<Rightarrow> exn + obs_space" where
  "init_observation_space X args env =
     (if arg_from_pixels args then
        Inr (PixelBox 0 255 [3, arg_height args, arg_width args])
      else
        (case spec_to_box (map snd (observation_spec X env)) of
           Inl e \<Rightarrow> Inl e
         | Inr b \<Rightarrow> Inr (FloatBox b)))"

text \<open>
  \<open>'random' in task_kwargs\<close> raises \<open>TypeError\<close> when \<open>task_kwargs\<close> is \<open>None\<close>, before
  the \<open>assert\<close> can fail. The last statement is \<open>self.seed(seed=task_kwargs.get('random', 1))\<close>.
\<close>

definition init :: "('s, 'g, 'v) world \<Rightarrow> init_args \<Rightarrow> exn + ('s, 'g) DMCWrapper" where
  "init X args =
     (case arg_task_kwargs args of
        None \<Rightarrow> Inl TypeError
      | Some task_kwargs \<Rightarrow>
          if task_kwargs ''random'' = None then
            Inl (AssertionError ''please specify a seed, for deterministic behaviour'')
          else
            let env = suite_load X args in
            (case spec_to_box [action_spec X env] of
               Inl e \<Rightarrow> Inl e
             | Inr true_action_space \<Rightarrow>
                 let n = length (low true_action_space);
                     norm_action_space = \<lparr>low = replicate n (Fin (- 1)),
                                          high = replicate n (Fin 1)\<rparr> in
                 (case init_observation_space X args env of
                    Inl e \<Rightarrow> Inl e
                  | Inr observation_space \<Rightarrow>
                      let m = length (physics_get_state X env);
                          internal_state_space = \<lparr>low = replicate m NInf,
                                                 high = replicate m PInf\<rparr> in
                      (case init_background X args of
                         Inl e \<Rightarrow> Inl e
                       | Inr bg \<Rightarrow>
                           Inr \<lparr>self_from_pixels = arg_from_pixels args,
                                self_height = arg_height args,
                                self_width = arg_width args,
                                self_camera_id = arg_camera_id args,
                                self_frame_skip = arg_frame_skip args,
                                self_img_source = arg_distractor_type args,
                                self_env = env,
                                self_true_action_space = true_action_space,
                                self_norm_action_space = norm_action_space,
                                self_observation_space = observation_space,
                                self_internal_state_space = internal_state_space,
                                self_bg_source = bg,
                                self_seed = (case task_kwargs ''random'' of
                                               Some v \<Rightarrow> v
                                             | None \<Rightarrow> KInt 1)\<rparr>))))"

subsection \<open>\<open>__getattr__\<close> and attribute access\<close>

text \<open>
  The names that \<open>__init__\<close> assigns on the instance, and the names that the class body
  defines. \<open>base\<close>, a parameter below, is the names that the base class \<open>core.Env\<close> and
  \<open>object\<close> define.
\<close>

definition instance_attrs :: "('s, 'g) DMCWrapper \<Rightarrow> string list" where
  "instance_attrs w =
     [''_from_pixels'', ''_height'', ''_width'', ''_camera_id'', ''_frame_skip'',
      ''_img_source'', ''_env'', ''_true_action_space'', ''_norm_action_space'',
      ''_observation_space'', ''_internal_state_space'']
     @ (if self_bg_source w = None then [] else [''_bg_source''])"

definition class_attrs :: "string list" where
  "class_attrs =
     [''metadata'', ''__init__'', ''__getattr__'', ''_get_obs'', ''_convert_action'',
      ''observation_space'', ''internal_state_space'', ''action_space'', ''seed'',
      ''step'', ''reset'', ''_render'', ''render'']"

text \<open>\<open>__getattr__(self, name)\<close>: \<open>getattr(self._env, name)\<close>.\<close>

definition dunder_getattr ::
  "('s, 'g, 'v) world \<Rightarrow> ('s, 'g) DMCWrapper \<Rightarrow> string \<Rightarrow> exn + 'v" where
  "dunder_getattr X w name =
     (case env_getattr X (self_env w) name of
        None \<Rightarrow> Inl (AttributeError name)
      | Some v \<Rightarrow> Inr v)"

text \<open>
  Attribute access \<open>w.name\<close>: Python looks the name up on the instance and its class,
  and calls \<open>__getattr__\<close> only when that lookup fails. \<open>Own name\<close> stands for the
  wrapper's own attribute of that name.
\<close>

datatype 'v attribute = Own string | Forwarded 'v

definition getattr ::
  "('s, 'g, 'v) world \<Rightarrow> string list \<Rightarrow> ('s, 'g) DMCWrapper \<Rightarrow> string \<Rightarrow> exn + 'v attribute"
where
  "getattr X base w name =
     (if name \<in> set (instance_attrs w) \<or> name \<in> set class_attrs \<or> name \<in> set base
      then Inr (Own name)
      else (case dunder_getattr X w name of
              Inl e \<Rightarrow> Inl e
            | Inr v \<Rightarrow> Inr (Forwarded v)))"

subsection \<open>\<open>_render\<close> and \<open>_get_obs\<close>\<close>

text \<open>
  Python's \<open>x or y\<close> is \<open>x\<close> when \<open>x\<close> is truthy and \<open>y\<close> otherwise; \<open>None\<close> and \<open>0\<close>
  are falsy.
\<close>

definition or_size :: "nat option \<Rightarrow> nat \<Rightarrow> nat" where
  "or_size x y = (case x of None \<Rightarrow> y | Some n \<Rightarrow> if n \<noteq> 0 then n else y)"

definition or_int :: "int \<Rightarrow> int \<Rightarrow> int" where
  "or_int x y = (if x \<noteq> 0 then x else y)"

definition render_impl ::
  "('s, 'g, 'v) world \<Rightarrow> ('s, 'g) DMCWrapper \<Rightarrow> string \<Rightarrow> nat option \<Rightarrow> nat option \<Rightarrow> int
     \<Rightarrow> exn + frame" where
  "render_impl X w mode height width camera_id =
     (if mode \<noteq> ''rgb_array'' then Inl (AssertionError [])
      else
        let height' = or_size height (self_height w);
            width' = or_size width (self_width w);
            camera_id' = or_int camera_id (self_camera_id w)
        in Inr (physics_render X (self_env w) height' width' camera_id'))"

text \<open>
  The argument of \<open>_get_obs\<close> is a time step, or the integer \<open>0\<close> that \<open>render\<close> passes,
  which has no attribute \<open>observation\<close>. Reading \<open>self._bg_source\<close> on a wrapper that
  never assigned it is an \<open>AttributeError\<close>, that of the lookup on the environment.
\<close>

datatype time_step_arg = TS time_step | PyInt int

definition get_obs ::
  "('s, 'g, 'v) world \<Rightarrow> ('s, 'g) DMCWrapper \<Rightarrow> time_step_arg
     \<Rightarrow> exn + (observation \<times> ('s, 'g) DMCWrapper)" where
  "get_obs X w time_step =
     (if self_from_pixels w then
        (case render_impl X w ''rgb_array'' (Some (self_height w)) (Some (self_width w))
                (self_camera_id w) of
           Inl e \<Rightarrow> Inl e
         | Inr obs \<Rightarrow>
             if self_img_source w \<noteq> None then
               (case self_bg_source w of
                  None \<Rightarrow> Inl (AttributeError ''_bg_source'')
                | Some (src, g) \<Rightarrow>
                    let msk = mask_of obs;
                        (bg, g') = get_image X src g in
                    (case masked_assign obs msk bg of
                       Inl e \<Rightarrow> Inl e
                     | Inr obs' \<Rightarrow>
                         Inr (Pixels (transpose_2_0_1 obs'),
                              w\<lparr>self_bg_source := Some (src, g')\<rparr>)))
             else Inr (Pixels (transpose_2_0_1 obs), w))
      else
        (case time_step of
           PyInt i \<Rightarrow> Inl (AttributeError ''observation'')
         | TS ts \<Rightarrow>
             (case flatten_obs (ts_observation ts) of
                Inl e \<Rightarrow> Inl e
              | Inr obs \<Rightarrow> Inr (Flat obs, w))))"

subsection \<open>\<open>_convert_action\<close>, \<open>step\<close> and \<open>reset\<close>\<close>

text \<open>
  The arrays of \<open>_convert_action\<close> have one shape when \<open>step\<close> calls it: the first
  assertion of \<open>step\<close> compares the shape of the action with that of the normalized
  space, which has the shape of the true space.
\<close>

text \<open>
  \<open>astype(np.float64)\<close> and \<open>astype(np.float32)\<close>: a value of the model has no
  precision, so the casts leave it as it is.
\<close>

definition astype_float64 :: "fval list \<Rightarrow> fval list" where
  [simp]: "astype_float64 a = a"

definition astype_float32 :: "fval list \<Rightarrow> fval list" where
  [simp]: "astype_float32 a = a"

definition convert_action :: "('s, 'g) DMCWrapper \<Rightarrow> fval list \<Rightarrow> fval list" where
  "convert_action w action =
     (let action0 = astype_float64 action;
          true_delta = map2 fsub (high (self_true_action_space w))
                                 (low (self_true_action_space w));
          norm_delta = map2 fsub (high (self_norm_action_space w))
                                 (low (self_norm_action_space w));
          action1 = map2 fdiv (map2 fsub action0 (low (self_norm_action_space w))) norm_delta;
          action2 = map2 fadd (map2 fmul action1 true_delta) (low (self_true_action_space w));
          action3 = astype_float32 action2
      in action3)"

text \<open>\<open>time_step.reward or 0\<close>: \<open>None\<close> and a zero reward are falsy.\<close>

definition reward_or_0 :: "fval option \<Rightarrow> fval" where
  "reward_or_0 r = (case r of None \<Rightarrow> Fin 0 | Some x \<Rightarrow> if x = Fin 0 then Fin 0 else x)"

text \<open>
  The loop \<open>for _ in range(self._frame_skip)\<close> on the variables \<open>reward\<close>, \<open>time_step\<close>
  and \<open>done\<close>; the last two are unbound (\<open>None\<close> here) until the body has run once.
\<close>

fun frame_skip_loop ::
  "('s, 'g, 'v) world \<Rightarrow> nat \<Rightarrow> fval list
     \<Rightarrow> 's \<times> fval \<times> time_step option \<times> bool option
     \<Rightarrow> 's \<times> fval \<times> time_step option \<times> bool option" where
  "frame_skip_loop X 0 action st = st"
| "frame_skip_loop X (Suc n) action (env, reward, ts, dn) =
     (let (env', time_step) = env_step X env action;
          reward' = fadd reward (reward_or_0 (ts_reward time_step));
          done' = ts_last time_step
      in if done' then (env', reward', Some time_step, Some done')
         else frame_skip_loop X n action (env', reward', Some time_step, Some done'))"

record extra =
  internal_state :: "fval list"
  discount :: "fval option"

definition step ::
  "('s, 'g, 'v) world \<Rightarrow> ('s, 'g) DMCWrapper \<Rightarrow> fval list
     \<Rightarrow> exn + ((observation \<times> fval \<times> bool \<times> extra) \<times> ('s, 'g) DMCWrapper)" where
  "step X w action =
     (if \<not> contains (self_norm_action_space w) action then Inl (AssertionError [])
      else
        let action' = convert_action w action in
        if \<not> contains (self_true_action_space w) action' then Inl (AssertionError [])
        else
          let state0 = physics_get_state X (self_env w) in
          (case frame_skip_loop X (nat (self_frame_skip w)) action'
                  (self_env w, Fin 0, None, None) of
             (env', reward, Some time_step, Some done') \<Rightarrow>
               (case get_obs X (w\<lparr>self_env := env'\<rparr>) (TS time_step) of
                  Inl e \<Rightarrow> Inl e
                | Inr (obs, w') \<Rightarrow>
                    Inr ((obs, reward, done',
                          \<lparr>internal_state = state0, discount = ts_discount time_step\<rparr>), w'))
           | _ \<Rightarrow> Inl UnboundLocalError))"

definition reset ::
  "('s, 'g, 'v) world \<Rightarrow> ('s, 'g) DMCWrapper
     \<Rightarrow> exn + (observation \<times> ('s, 'g) DMCWrapper)" where
  "reset X w =
     (let (env', time_step) = env_reset X (self_env w)
      in get_obs X (w\<lparr>self_env := env'\<rparr>) (TS time_step))"

subsection \<open>\<open>render\<close>\<close>


section \<open>The sub-steps of one \<open>step\<close>, as the specification counts them\<close>

text \<open>
  The first \<open>n\<close> calls of the environment's \<open>step\<close> with one action, from the state
  \<open>env\<close>: each with the state it leaves and the time step it returns. The reward of a
  sub-step counts \<open>None\<close> as 0.
\<close>

fun sub_steps ::
  "('s, 'g, 'v) world \<Rightarrow> nat \<Rightarrow> fval list \<Rightarrow> 's \<Rightarrow> ('s \<times> time_step) list" where
  "sub_steps X 0 action env = []"
| "sub_steps X (Suc n) action env =
     env_step X env action # sub_steps X n action (fst (env_step X env action))"

definition reward_of :: "'s \<times> time_step \<Rightarrow> fval" where
  "reward_of st = (case ts_reward (snd st) of None \<Rightarrow> Fin 0 | Some r \<Rightarrow> r)"

section \<open>The properties of the class and membership in the observation space\<close>

definition observation_space :: "('s, 'g) DMCWrapper \<Rightarrow> obs_space" where
  "observation_space w = self_observation_space w"

definition internal_state_space :: "('s, 'g) DMCWrapper \<Rightarrow> box" where
  "internal_state_space w = self_internal_state_space w"

definition action_space :: "('s, 'g) DMCWrapper \<Rightarrow> box" where
  "action_space w = self_norm_action_space w"

text \<open>
  \<open>Box.contains\<close> for an observation: the shape is that of the box and every element is
  between \<open>low\<close> and \<open>high\<close>.
\<close>

fun obs_contains :: "obs_space \<Rightarrow> observation \<Rightarrow> bool" where
  "obs_contains (PixelBox lo hi shp) (Pixels a) =
     (case shp of
        [c, h, w] \<Rightarrow>
          has_shape3 c h w a
          \<and> (\<forall>plane \<in> set a. \<forall>row \<in> set plane. \<forall>v \<in> set row. lo \<le> unat v \<and> unat v \<le> hi)
      | _ \<Rightarrow> False)"
| "obs_contains (FloatBox b) (Flat x) = contains b x"
| "obs_contains (PixelBox lo hi shp) (Flat x) = False"
| "obs_contains (FloatBox b) (Pixels a) = False"

text \<open>A wrapper as \<open>__init__\<close> builds it with \<open>from_pixels=True\<close>.\<close>

definition pixel_wrapper :: "('s, 'g) DMCWrapper \<Rightarrow> bool" where
  "pixel_wrapper w =
     (self_from_pixels w
      \<and> self_observation_space w = PixelBox 0 255 [3, self_height w, self_width w])"

section \<open>A small environment\<close>

text \<open>
  An environment with a counter for its state, on which the definitions above can be
  run: the episode ends at the third step, the first step has no reward, and the
  renderer paints one row of pixels per unit of height.
\<close>

fun source_shape :: "bg_source \<Rightarrow> nat \<times> nat" where
  "source_shape (RandomColorSource shp) = shp"
| "source_shape (NoiseSource shp) = shp"
| "source_shape (RandomImageSource shp files grayscale n) = shp"
| "source_shape (RandomVideoSource shp files grayscale n) = shp"

definition toy_time_step :: "nat \<Rightarrow> time_step" where
  "toy_time_step s =
     \<lparr>ts_reward = (if s = 1 then None else Some (Fin (real s))),
      ts_discount = Some (Fin 1),
      ts_observation = [(''position'', NDArray [2] [Fin (real s), Fin 0]),
                        (''velocity'', Scalar (Fin 1))],
      ts_last = (3 \<le> s)\<rparr>"

definition toy_world :: "spec \<Rightarrow> (nat, nat, nat) world" where
  "toy_world aspec =
     \<lparr>suite_load = (\<lambda>args. 0),
      action_spec = (\<lambda>s. aspec),
      observation_spec = (\<lambda>s. [(''position'', Array Float64 [2]),
                                (''velocity'', Array Float64 [])]),
      env_step = (\<lambda>s a. (Suc s, toy_time_step (Suc s))),
      env_reset = (\<lambda>s. (0, toy_time_step 0)),
      physics_get_state = (\<lambda>s. [Fin (real s)]),
      physics_render = (\<lambda>s h w cam.
         replicate h (map (\<lambda>j. Pixel (of_nat (10 * j)) (of_int cam) 9) [0..<w])),
      env_getattr = (\<lambda>s name. if name = ''physics'' then Some s else None),
      glob_glob = (\<lambda>pattern. if pattern = ''*.png'' then [''a.png''] else []),
      source_init = (\<lambda>src. 0),
      get_image = (\<lambda>src g.
         (replicate (fst (source_shape src)) (replicate (snd (source_shape src)) (Pixel 7 7 7)),
          Suc g))\<rparr>"

definition toy_spec :: spec where
  "toy_spec = BoundedArray Float64 [1] [Fin (- 2)] [Fin 4]"

definition toy_args :: init_args where
  "toy_args =
     \<lparr>arg_robot_name = ''cartpole'', arg_task_name = ''swingup'',
      arg_distractor_files = ''*.png'', arg_distractor_type = Some ''color'',
      arg_total_frames = 10, arg_task_kwargs = Some [''random'' \<mapsto> KInt 3],
      arg_from_pixels = True, arg_height = 1, arg_width = 2, arg_camera_id = 1,
      arg_frame_skip = 2, arg_environment_kwargs = None\<rparr>"

definition toy_wrapper :: "(nat, nat) DMCWrapper" where
  "toy_wrapper =
     \<lparr>self_from_pixels = True, self_height = 1, self_width = 2, self_camera_id = 1,
      self_frame_skip = 2, self_img_source = Some ''color'', self_env = 0,
      self_true_action_space = \<lparr>low = [Fin (- 2)], high = [Fin 4]\<rparr>,
      self_norm_action_space = \<lparr>low = [Fin (- 1)], high = [Fin 1]\<rparr>,
      self_observation_space = PixelBox 0 255 [3, 1, 2],
      self_internal_state_space = \<lparr>low = [NInf], high = [PInf]\<rparr>,
      self_bg_source = Some (RandomColorSource (1, 2), 0),
      self_seed = KInt 3\<rparr>"


definition toy_state_wrapper :: "(nat, nat) DMCWrapper" where
  "toy_state_wrapper =
     toy_wrapper\<lparr>self_from_pixels := False, self_img_source := None,
       self_observation_space := FloatBox \<lparr>low = [NInf, NInf, NInf], high = [PInf, PInf, PInf]\<rparr>,
       self_bg_source := None\<rparr>"



section \<open>Properties\<close>

subsection \<open>The small environment\<close>

lemma toy_spec_box: "spec_to_box [toy_spec] = Inr \<lparr>low = [Fin (- 2)], high = [Fin 4]\<rparr>"
  by (simp add: spec_to_box_def toy_spec_def extract_min_max_def add_zeros_def)

lemma toy_init: "init (toy_world toy_spec) toy_args = Inr toy_wrapper"
  by (simp add: init_def toy_world_def toy_args_def toy_wrapper_def toy_spec_box
      init_observation_space_def init_background_def)



lemma toy_render:
  "physics_render (toy_world sp) s (Suc 0) 2 cam =
     [[Pixel 0 (of_int cam) 9, Pixel 10 (of_int cam) 9]]"
  by (simp add: toy_world_def upt_rec)

subsection \<open>What \<open>__init__\<close> stores\<close>

lemma or_size_self: "or_size (Some n) n = n"
  by (simp add: or_size_def)

lemma init_fields:
  assumes "init X args = Inr w"
  shows "self_from_pixels w = arg_from_pixels args \<and> self_height w = arg_height args
    \<and> self_width w = arg_width args \<and> self_camera_id w = arg_camera_id args
    \<and> self_frame_skip w = arg_frame_skip args \<and> self_img_source w = arg_distractor_type args
    \<and> self_env w = suite_load X args
    \<and> init_background X args = Inr (self_bg_source w)
    \<and> init_observation_space X args (suite_load X args) = Inr (self_observation_space w)
    \<and> spec_to_box [action_spec X (suite_load X args)] = Inr (self_true_action_space w)
    \<and> self_norm_action_space w =
         \<lparr>low = replicate (length (low (self_true_action_space w))) (Fin (- 1)),
          high = replicate (length (low (self_true_action_space w))) (Fin 1)\<rparr>"
  using assms
  by (auto simp: init_def Let_def split: option.splits sum.splits if_splits)

subsection \<open>Falsy arguments of \<open>_render\<close>\<close>



lemma init_background_error:
  assumes "init_background X args = Inl e"
  shows "\<exists>e'. init X args = Inl e'"
  using assms
  by (cases "init X args") (auto dest: init_fields)

subsection \<open>The seed of \<open>__init__\<close>\<close>

text \<open>
  Claim C9. \<open>__init__\<close> needs the key \<open>'random'\<close> in \<open>task_kwargs\<close>: with
  \<open>task_kwargs=None\<close> the membership test raises \<open>TypeError\<close>, with a dict that lacks
  the key the assertion fails with the message asking for a seed, and whenever the
  construction succeeds the seed given to the spaces is \<open>task_kwargs['random']\<close>, so
  the default 1 of \<open>.get\<close> is never used.
\<close>

theorem init_requires_random:
  "(arg_task_kwargs args = None \<longrightarrow> init X args = Inl TypeError)
   \<and> (\<forall>kw. arg_task_kwargs args = Some kw \<and> kw ''random'' = None \<longrightarrow>
         init X args =
           Inl (AssertionError ''please specify a seed, for deterministic behaviour''))
   \<and> (\<forall>w. init X args = Inr w \<longrightarrow>
         (\<exists>kw v. arg_task_kwargs args = Some kw \<and> kw ''random'' = Some v
            \<and> self_seed w = v))"
  by (auto simp: init_def Let_def split: option.splits sum.splits if_splits)

theorem init_requires_random_witness:
  "init (toy_world toy_spec) (toy_args\<lparr>arg_task_kwargs := None\<rparr>) = Inl TypeError
   \<and> init (toy_world toy_spec) (toy_args\<lparr>arg_task_kwargs := Some [''time_limit'' \<mapsto> KInt 10]\<rparr>) =
        Inl (AssertionError ''please specify a seed, for deterministic behaviour'')
   \<and> init (toy_world toy_spec) toy_args = Inr toy_wrapper
   \<and> arg_task_kwargs toy_args = Some [''random'' \<mapsto> KInt 3]
   \<and> self_seed toy_wrapper = KInt 3
   \<and> init (toy_world toy_spec) (toy_args\<lparr>arg_task_kwargs := Some [''random'' \<mapsto> KNone]\<rparr>) =
        Inr (toy_wrapper\<lparr>self_seed := KNone\<rparr>)
   \<and> self_seed (toy_wrapper\<lparr>self_seed := KNone\<rparr>) = KNone"
proof -
  have a: "init (toy_world toy_spec) (toy_args\<lparr>arg_task_kwargs := None\<rparr>) = Inl TypeError"
    using init_requires_random [of "toy_args\<lparr>arg_task_kwargs := None\<rparr>" "toy_world toy_spec"]
    by simp
  have b: "init (toy_world toy_spec)
             (toy_args\<lparr>arg_task_kwargs := Some [''time_limit'' \<mapsto> KInt 10]\<rparr>) =
        Inl (AssertionError ''please specify a seed, for deterministic behaviour'')"
    using init_requires_random
      [of "toy_args\<lparr>arg_task_kwargs := Some [''time_limit'' \<mapsto> KInt 10]\<rparr>" "toy_world toy_spec"]
    by simp
  have c: "self_seed toy_wrapper = KInt 3"
    using init_requires_random [of toy_args "toy_world toy_spec"] toy_init
    by (auto simp: toy_args_def)
  have d: "init (toy_world toy_spec) (toy_args\<lparr>arg_task_kwargs := Some [''random'' \<mapsto> KNone]\<rparr>) =
        Inr (toy_wrapper\<lparr>self_seed := KNone\<rparr>)"
    by (simp add: init_def toy_world_def toy_args_def toy_wrapper_def toy_spec_box
        init_observation_space_def init_background_def)
  have e: "self_seed (toy_wrapper\<lparr>self_seed := KNone\<rparr>) = KNone"
    using init_requires_random
      [of "toy_args\<lparr>arg_task_kwargs := Some [''random'' \<mapsto> KNone]\<rparr>" "toy_world toy_spec"] d
    by simp
  show ?thesis
    using a b c d e toy_init by (simp add: toy_args_def)
qed

subsection \<open>Attribute forwarding\<close>

text \<open>
  Claim C6. For a name that is defined neither on the instance nor on its class (or a
  base class), attribute access on the wrapper is the lookup of the same name on the
  wrapped environment: its value when the environment has it, its \<open>AttributeError\<close>
  otherwise.
\<close>

theorem getattr_forwards:
  assumes "name \<notin> set (instance_attrs w)" and "name \<notin> set class_attrs" and "name \<notin> set base"
  shows "getattr X base w name =
           (case env_getattr X (self_env w) name of
              None \<Rightarrow> Inl (AttributeError name)
            | Some v \<Rightarrow> Inr (Forwarded v))"
  using assms by (simp add: getattr_def dunder_getattr_def split: option.splits)

theorem getattr_forwards_witness:
  "''physics'' \<notin> set (instance_attrs toy_state_wrapper) \<and> ''physics'' \<notin> set class_attrs
   \<and> ''physics'' \<notin> set [''close'', ''unwrapped'', ''reward_range'', ''spec'']
   \<and> getattr (toy_world toy_spec) [''close'', ''unwrapped'', ''reward_range'', ''spec'']
        toy_state_wrapper ''physics'' = Inr (Forwarded 0)
   \<and> ''_bg_source'' \<notin> set (instance_attrs toy_state_wrapper)
   \<and> getattr (toy_world toy_spec) [''close'', ''unwrapped'', ''reward_range'', ''spec'']
        toy_state_wrapper ''_bg_source'' = Inl (AttributeError ''_bg_source'')"
proof -
  have i: "''physics'' \<notin> set (instance_attrs toy_state_wrapper)"
    "''_bg_source'' \<notin> set (instance_attrs toy_state_wrapper)"
    by (simp_all add: instance_attrs_def toy_state_wrapper_def toy_wrapper_def)
  have c: "''physics'' \<notin> set class_attrs" "''_bg_source'' \<notin> set class_attrs"
    by (simp_all add: class_attrs_def)
  have b: "''physics'' \<notin> set [''close'', ''unwrapped'', ''reward_range'', ''spec'']"
    "''_bg_source'' \<notin> set [''close'', ''unwrapped'', ''reward_range'', ''spec'']"
    by simp_all
  have e: "self_env toy_state_wrapper = 0"
    by (simp add: toy_state_wrapper_def toy_wrapper_def)
  show ?thesis
    using getattr_forwards [OF i(1) c(1) b(1), of "toy_world toy_spec"]
      getattr_forwards [OF i(2) c(2) b(2), of "toy_world toy_spec"] i c
    by (simp add: e toy_world_def)
qed

lemma get_obs_unmasked:
  assumes "self_from_pixels w" and "self_img_source w = None"
  shows "get_obs X w ts =
           Inr (Pixels (transpose_2_0_1
                  (physics_render X (self_env w) (self_height w) (self_width w)
                     (self_camera_id w))), w)"
  using assms by (simp add: get_obs_def render_impl_def or_size_def or_int_def)

subsection \<open>The background source chosen by \<open>__init__\<close>\<close>

text \<open>
  Claim C5, as amended. \<open>__init__\<close> chooses the background source by
  \<open>distractor_type\<close>: \<open>"color"\<close> gives a \<open>RandomColorSource\<close> and \<open>"noise"\<close> a
  \<open>NoiseSource\<close>; \<open>"images"\<close> gives a \<open>RandomImageSource\<close> and \<open>"video"\<close> a
  \<open>RandomVideoSource\<close> over the files that match \<open>distractor_files\<close>, provided that
  at least one file matches. For every type other than \<open>"color"\<close> and \<open>"noise"\<close> a
  pattern that matches no file fails the assertion on the files; any other type with
  matching files raises \<open>Exception\<close>. With \<open>distractor_type=None\<close> no source is
  created, and a pixel observation is the rendered frame, transposed and never masked.
  A wrapper that \<open>__init__\<close> returns holds the source chosen, and an error of the
  choice is an error of \<open>__init__\<close>.
\<close>

theorem background_selection:
  "(arg_distractor_type args = None \<longrightarrow> init_background X args = Inr None)
   \<and> (arg_distractor_type args = Some ''color'' \<longrightarrow>
        (\<exists>g. init_background X args =
           Inr (Some (RandomColorSource (arg_height args, arg_width args), g))))
   \<and> (arg_distractor_type args = Some ''noise'' \<longrightarrow>
        (\<exists>g. init_background X args =
           Inr (Some (NoiseSource (arg_height args, arg_width args), g))))
   \<and> (arg_distractor_type args = Some ''images''
        \<and> glob_glob X (arg_distractor_files args) \<noteq> [] \<longrightarrow>
        (\<exists>g. init_background X args =
           Inr (Some (RandomImageSource (arg_height args, arg_width args)
                        (glob_glob X (arg_distractor_files args)) True
                        (arg_total_frames args), g))))
   \<and> (arg_distractor_type args = Some ''video''
        \<and> glob_glob X (arg_distractor_files args) \<noteq> [] \<longrightarrow>
        (\<exists>g. init_background X args =
           Inr (Some (RandomVideoSource (arg_height args, arg_width args)
                        (glob_glob X (arg_distractor_files args)) True
                        (arg_total_frames args), g))))
   \<and> (\<forall>t. arg_distractor_type args = Some t \<and> t \<noteq> ''color'' \<and> t \<noteq> ''noise''
        \<and> glob_glob X (arg_distractor_files args) = [] \<longrightarrow>
        init_background X args =
          Inl (AssertionError
                 (''Pattern '' @ arg_distractor_files args @ '' does not match any files'')))
   \<and> (\<forall>t. arg_distractor_type args = Some t \<and> t \<noteq> ''color'' \<and> t \<noteq> ''noise''
        \<and> t \<noteq> ''images'' \<and> t \<noteq> ''video''
        \<and> glob_glob X (arg_distractor_files args) \<noteq> [] \<longrightarrow>
        init_background X args = Inl (Exception (''img_source '' @ t @ '' not defined.'')))
   \<and> (\<forall>w. init X args = Inr w \<longrightarrow>
        init_background X args = Inr (self_bg_source w)
        \<and> self_img_source w = arg_distractor_type args)
   \<and> (\<forall>e. init_background X args = Inl e \<longrightarrow> (\<exists>e'. init X args = Inl e'))
   \<and> (\<forall>w ts. self_from_pixels w \<and> self_img_source w = None \<longrightarrow>
        get_obs X w ts =
          Inr (Pixels (transpose_2_0_1
                  (physics_render X (self_env w) (self_height w) (self_width w)
                     (self_camera_id w))), w))"
proof -
  have a: "\<forall>w. init X args = Inr w \<longrightarrow>
        init_background X args = Inr (self_bg_source w)
        \<and> self_img_source w = arg_distractor_type args"
    using init_fields by blast
  have b: "\<forall>e. init_background X args = Inl e \<longrightarrow> (\<exists>e'. init X args = Inl e')"
    using init_background_error by blast
  have c: "\<forall>w ts. self_from_pixels w \<and> self_img_source w = None \<longrightarrow>
        get_obs X w ts =
          Inr (Pixels (transpose_2_0_1
                  (physics_render X (self_env w) (self_height w) (self_width w)
                     (self_camera_id w))), w)"
    using get_obs_unmasked by blast
  show ?thesis
    apply (intro conjI a b c)
    apply (auto simp: init_background_def Let_def)
    done
qed

text \<open>
  The claim as first stated fails: with \<open>distractor_type="images"\<close> and a pattern that
  matches no file, no \<open>RandomImageSource\<close> is made and the construction fails.
\<close>

theorem background_selection_counterexample:
  "init_background (toy_world toy_spec) (toy_args\<lparr>arg_distractor_type := Some ''images'',
       arg_distractor_files := ''*.jpg''\<rparr>) =
     Inl (AssertionError ''Pattern *.jpg does not match any files'')
   \<and> init (toy_world toy_spec) (toy_args\<lparr>arg_distractor_type := Some ''images'',
       arg_distractor_files := ''*.jpg''\<rparr>) =
     Inl (AssertionError ''Pattern *.jpg does not match any files'')"
  by (simp add: init_def toy_world_def toy_args_def toy_spec_box
      init_observation_space_def init_background_def)


theorem background_selection_witness:
  "init_background (toy_world toy_spec) (toy_args\<lparr>arg_distractor_type := None\<rparr>) = Inr None
   \<and> init_background (toy_world toy_spec) toy_args = Inr (Some (RandomColorSource (1, 2), 0))
   \<and> init_background (toy_world toy_spec) (toy_args\<lparr>arg_distractor_type := Some ''noise''\<rparr>) =
        Inr (Some (NoiseSource (1, 2), 0))
   \<and> glob_glob (toy_world toy_spec) ''*.png'' = [''a.png'']
   \<and> init_background (toy_world toy_spec) (toy_args\<lparr>arg_distractor_type := Some ''images''\<rparr>) =
        Inr (Some (RandomImageSource (1, 2) [''a.png''] True 10, 0))
   \<and> init_background (toy_world toy_spec) (toy_args\<lparr>arg_distractor_type := Some ''video''\<rparr>) =
        Inr (Some (RandomVideoSource (1, 2) [''a.png''] True 10, 0))
   \<and> glob_glob (toy_world toy_spec) ''*.jpg'' = []
   \<and> init_background (toy_world toy_spec)
        (toy_args\<lparr>arg_distractor_type := Some ''video'', arg_distractor_files := ''*.jpg''\<rparr>) =
        Inl (AssertionError ''Pattern *.jpg does not match any files'')
   \<and> (\<exists>e. init (toy_world toy_spec)
        (toy_args\<lparr>arg_distractor_type := Some ''video'', arg_distractor_files := ''*.jpg''\<rparr>) =
        Inl e)
   \<and> init_background (toy_world toy_spec) (toy_args\<lparr>arg_distractor_type := Some ''cats''\<rparr>) =
        Inl (Exception ''img_source cats not defined.'')
   \<and> init (toy_world toy_spec) toy_args = Inr toy_wrapper
   \<and> self_bg_source toy_wrapper = Some (RandomColorSource (1, 2), 0)
   \<and> self_img_source toy_wrapper = Some ''color''
   \<and> self_from_pixels (toy_wrapper\<lparr>self_img_source := None\<rparr>)
   \<and> get_obs (toy_world toy_spec) (toy_wrapper\<lparr>self_img_source := None\<rparr>) (PyInt 0) =
        Inr (Pixels [[[0, 10]], [[1, 1]], [[9, 9]]], toy_wrapper\<lparr>self_img_source := None\<rparr>)"
proof -
  let ?X = "toy_world toy_spec"
  let ?video = "toy_args\<lparr>arg_distractor_type := Some ''video'', arg_distractor_files := ''*.jpg''\<rparr>"
  have g: "glob_glob ?X ''*.png'' = [''a.png'']" "glob_glob ?X ''*.jpg'' = []"
    "source_init ?X = (\<lambda>src. 0)"
    by (simp_all add: toy_world_def)
  have 1: "init_background ?X (toy_args\<lparr>arg_distractor_type := None\<rparr>) = Inr None"
    using background_selection [of "toy_args\<lparr>arg_distractor_type := None\<rparr>" ?X] by simp
  have 2: "init_background ?X toy_args = Inr (Some (RandomColorSource (1, 2), 0))"
    using background_selection [of toy_args ?X] toy_init
    by (simp add: toy_wrapper_def)
  have 3: "init_background ?X (toy_args\<lparr>arg_distractor_type := Some ''noise''\<rparr>) =
        Inr (Some (NoiseSource (1, 2), 0))"
    using background_selection [of "toy_args\<lparr>arg_distractor_type := Some ''noise''\<rparr>" ?X]
    by (auto simp: init_background_def g toy_args_def)
  have 4: "init_background ?X (toy_args\<lparr>arg_distractor_type := Some ''images''\<rparr>) =
        Inr (Some (RandomImageSource (1, 2) [''a.png''] True 10, 0))"
    using background_selection [of "toy_args\<lparr>arg_distractor_type := Some ''images''\<rparr>" ?X]
    by (auto simp: init_background_def g toy_args_def)
  have 5: "init_background ?X (toy_args\<lparr>arg_distractor_type := Some ''video''\<rparr>) =
        Inr (Some (RandomVideoSource (1, 2) [''a.png''] True 10, 0))"
    using background_selection [of "toy_args\<lparr>arg_distractor_type := Some ''video''\<rparr>" ?X]
    by (auto simp: init_background_def g toy_args_def)
  have 6: "init_background ?X ?video =
        Inl (AssertionError ''Pattern *.jpg does not match any files'')"
    using background_selection [of ?video ?X] by (simp add: g toy_args_def)
  have 7: "\<exists>e. init ?X ?video = Inl e"
    using background_selection [of ?video ?X] 6 by blast
  have 8: "init_background ?X (toy_args\<lparr>arg_distractor_type := Some ''cats''\<rparr>) =
        Inl (Exception ''img_source cats not defined.'')"
    using background_selection [of "toy_args\<lparr>arg_distractor_type := Some ''cats''\<rparr>" ?X]
    by (simp add: g toy_args_def)
  have 9: "self_bg_source toy_wrapper = Some (RandomColorSource (1, 2), 0)"
    "self_img_source toy_wrapper = Some ''color''"
    "self_from_pixels (toy_wrapper\<lparr>self_img_source := None\<rparr>)"
    by (simp_all add: toy_wrapper_def)
  have 10: "get_obs ?X (toy_wrapper\<lparr>self_img_source := None\<rparr>) (PyInt 0) =
        Inr (Pixels [[[0, 10]], [[1, 1]], [[9, 9]]], toy_wrapper\<lparr>self_img_source := None\<rparr>)"
    using background_selection [of toy_args ?X] 9(3) toy_render [of toy_spec 0 1]
    by (simp add: toy_wrapper_def transpose_2_0_1_def)
  show ?thesis
    using 1 2 3 4 5 6 7 8 9 10 g toy_init by simp
qed

subsection \<open>Frame skipping\<close>

lemma reward_or_0_eq: "reward_or_0 r = (case r of None \<Rightarrow> Fin 0 | Some x \<Rightarrow> x)"
  by (simp add: reward_or_0_def split: option.splits)

lemma length_sub_steps [simp]: "length (sub_steps X n a s) = n"
  by (induction n arbitrary: s) simp_all

lemma frame_skip_loop_trace:
  "1 \<le> k \<Longrightarrow>
   \<exists>n. 1 \<le> n \<and> n \<le> k \<and>
     (\<forall>i<n - 1. \<not> ts_last (snd (sub_steps X n a s ! i))) \<and>
     (n < k \<longrightarrow> ts_last (snd (last (sub_steps X n a s)))) \<and>
     frame_skip_loop X k a (s, r0, t0, d0) =
       (fst (last (sub_steps X n a s)),
        foldl fadd r0 (map reward_of (sub_steps X n a s)),
        Some (snd (last (sub_steps X n a s))),
        Some (ts_last (snd (last (sub_steps X n a s)))))"
proof (induction k arbitrary: s r0 t0 d0)
  case 0
  then show ?case by simp
next
  case (Suc k)
  obtain s' ts where st: "env_step X s a = (s', ts)"
    by (cases "env_step X s a")
  let ?r = "fadd r0 (reward_of (s', ts))"
  have rw: "fadd r0 (reward_or_0 (ts_reward ts)) = ?r"
    by (simp add: reward_of_def reward_or_0_eq)
  show ?case
  proof (cases "ts_last ts \<or> k = 0")
    case True
    then have "frame_skip_loop X (Suc k) a (s, r0, t0, d0) = (s', ?r, Some ts, Some (ts_last ts))"
      using st rw by (auto simp: Let_def)
    then show ?thesis
      using True st by (intro exI [of _ 1]) auto
  next
    case False
    then have k: "1 \<le> k" and nl: "\<not> ts_last ts" by auto
    from Suc.IH [OF k, of s' ?r "Some ts" "Some (ts_last ts)"]
    obtain n where n: "1 \<le> n" "n \<le> k"
      "\<forall>i<n - 1. \<not> ts_last (snd (sub_steps X n a s' ! i))"
      "n < k \<longrightarrow> ts_last (snd (last (sub_steps X n a s')))"
      "frame_skip_loop X k a (s', ?r, Some ts, Some (ts_last ts)) =
       (fst (last (sub_steps X n a s')),
        foldl fadd ?r (map reward_of (sub_steps X n a s')),
        Some (snd (last (sub_steps X n a s'))),
        Some (ts_last (snd (last (sub_steps X n a s')))))"
      by blast
    have ne: "sub_steps X n a s' \<noteq> []"
      using n(1) by (metis length_sub_steps list.size(3) not_one_le_zero)
    have step: "frame_skip_loop X (Suc k) a (s, r0, t0, d0) =
        frame_skip_loop X k a (s', ?r, Some ts, Some (ts_last ts))"
      using st rw nl by (simp add: Let_def)
    have tr: "sub_steps X (Suc n) a s = (s', ts) # sub_steps X n a s'"
      using st by simp
    have nth: "\<forall>i<Suc n - 1. \<not> ts_last (snd (sub_steps X (Suc n) a s ! i))"
    proof (intro allI impI)
      fix i assume i: "i < Suc n - 1"
      show "\<not> ts_last (snd (sub_steps X (Suc n) a s ! i))"
      proof (cases i)
        case 0
        then show ?thesis using tr nl by simp
      next
        case (Suc j)
        then have "j < n - 1" using i by simp
        then show ?thesis using n(3) tr Suc by simp
      qed
    qed
    show ?thesis
      apply (rule exI [of _ "Suc n"])
      apply (intro conjI)
      subgoal by simp
      subgoal using n(2) by simp
      subgoal by (rule nth)
      subgoal using n(4) tr ne by simp
      subgoal using step n(5) tr ne by simp
      done
  qed
qed

lemma get_obs_fields:
  assumes "get_obs X w ts = Inr (obs, w')"
  shows "w' = w\<lparr>self_bg_source := self_bg_source w'\<rparr>"
  using assms
  by (auto simp: get_obs_def Let_def split: if_splits sum.splits option.splits prod.splits
      time_step_arg.splits)


lemma toy_step: "env_step (toy_world sp) s a = (Suc s, toy_time_step (Suc s))"
  by (simp add: toy_world_def)

lemma toy_get_image:
  "get_image (toy_world sp) (RandomColorSource (Suc 0, 2)) g =
     ([[Pixel 7 7 7, Pixel 7 7 7]], Suc g)"
  by (simp add: toy_world_def numeral_2_eq_2)

lemma toy_get_obs:
  "get_obs (toy_world sp) (toy_wrapper\<lparr>self_frame_skip := k, self_env := s\<rparr>) ts =
     Inr (Pixels [[[7, 10]], [[7, 1]], [[7, 9]]],
          toy_wrapper\<lparr>self_frame_skip := k, self_env := s,
            self_bg_source := Some (RandomColorSource (1, 2), 1)\<rparr>)"
  by (simp add: get_obs_def toy_wrapper_def render_impl_def or_size_def or_int_def
      toy_render toy_get_image mask_of_def masked_assign_def transpose_2_0_1_def)

lemma toy_state: "physics_get_state (toy_world sp) s = [Fin (real s)]"
  by (simp add: toy_world_def)

lemma step_trace:
  assumes "1 \<le> self_frame_skip w"
  shows "\<exists>n. 1 \<le> n \<and> int n \<le> self_frame_skip w \<and>
    (\<forall>i<n - 1. \<not> ts_last (snd (sub_steps X n (convert_action w action) (self_env w) ! i))) \<and>
    (int n < self_frame_skip w \<longrightarrow>
       ts_last (snd (last (sub_steps X n (convert_action w action) (self_env w))))) \<and>
    (contains (self_norm_action_space w) action
       \<and> contains (self_true_action_space w) (convert_action w action) \<longrightarrow>
     step X w action =
       (case get_obs X
               (w\<lparr>self_env := fst (last (sub_steps X n (convert_action w action) (self_env w)))\<rparr>)
               (TS (snd (last (sub_steps X n (convert_action w action) (self_env w))))) of
          Inl e \<Rightarrow> Inl e
        | Inr (obs, w') \<Rightarrow>
            Inr ((obs,
                  foldl fadd (Fin 0)
                    (map reward_of (sub_steps X n (convert_action w action) (self_env w))),
                  ts_last (snd (last (sub_steps X n (convert_action w action) (self_env w)))),
                  \<lparr>internal_state = physics_get_state X (self_env w),
                   discount = ts_discount (snd (last (sub_steps X n (convert_action w action)
                                                        (self_env w))))\<rparr>), w')))"
proof -
  have k: "1 \<le> nat (self_frame_skip w)"
    using assms by simp
  from frame_skip_loop_trace [OF k, of X "convert_action w action" "self_env w" "Fin 0" None None]
  obtain n where n: "1 \<le> n" "n \<le> nat (self_frame_skip w)"
    "\<forall>i<n - 1. \<not> ts_last (snd (sub_steps X n (convert_action w action) (self_env w) ! i))"
    "n < nat (self_frame_skip w) \<longrightarrow>
       ts_last (snd (last (sub_steps X n (convert_action w action) (self_env w))))"
    "frame_skip_loop X (nat (self_frame_skip w)) (convert_action w action)
       (self_env w, Fin 0, None, None) =
       (fst (last (sub_steps X n (convert_action w action) (self_env w))),
        foldl fadd (Fin 0) (map reward_of (sub_steps X n (convert_action w action) (self_env w))),
        Some (snd (last (sub_steps X n (convert_action w action) (self_env w)))),
        Some (ts_last (snd (last (sub_steps X n (convert_action w action) (self_env w))))))"
    by blast
  have le: "int n \<le> self_frame_skip w"
    using n(2) assms by linarith
  have lt: "int n < self_frame_skip w \<Longrightarrow> n < nat (self_frame_skip w)"
    by linarith
  show ?thesis
    apply (rule exI [of _ n])
    apply (intro conjI)
    subgoal by (rule n(1))
    subgoal by (rule le)
    subgoal by (rule n(3))
    subgoal using n(4) lt by blast
    subgoal by (simp add: step_def Let_def n(5) split: sum.splits prod.splits)
    done
qed

text \<open>
  Claim C3. With \<open>frame_skip >= 1\<close>, one call of \<open>step\<close> runs \<open>n\<close> sub-steps of the
  environment with the converted action, where \<open>1 <= n <= frame_skip\<close>: no sub-step
  before the last one ends the episode, and when \<open>n < frame_skip\<close> the last one does.
  When both assertions pass, the reward returned is the sum, from 0 and in order, of the
  rewards of these \<open>n\<close> sub-steps with \<open>None\<close> counted as 0, the flag returned is
  \<open>last()\<close> of the final sub-step, and the observation is \<open>_get_obs\<close> in the state
  that the final sub-step leaves.
\<close>

theorem step_frame_skip:
  assumes "1 \<le> self_frame_skip w"
  shows "\<exists>n. 1 \<le> n \<and> int n \<le> self_frame_skip w \<and>
    (let tr = sub_steps X n (convert_action w action) (self_env w);
         final = snd (last tr)
     in (\<forall>i<n - 1. \<not> ts_last (snd (tr ! i))) \<and>
        (int n < self_frame_skip w \<longrightarrow> ts_last final) \<and>
        (contains (self_norm_action_space w) action
         \<and> contains (self_true_action_space w) (convert_action w action) \<longrightarrow>
         step X w action =
           (case get_obs X (w\<lparr>self_env := fst (last tr)\<rparr>) (TS final) of
              Inl e \<Rightarrow> Inl e
            | Inr (obs, w') \<Rightarrow>
                Inr ((obs, foldl fadd (Fin 0) (map reward_of tr), ts_last final,
                      \<lparr>internal_state = physics_get_state X (self_env w),
                       discount = ts_discount final\<rparr>), w'))))"
  using step_trace [OF assms, of X action] unfolding Let_def .

theorem step_frame_skip_witness:
  "1 \<le> self_frame_skip (toy_wrapper\<lparr>self_frame_skip := 5\<rparr>)
   \<and> contains (self_norm_action_space (toy_wrapper\<lparr>self_frame_skip := 5\<rparr>)) [Fin 0]
   \<and> convert_action (toy_wrapper\<lparr>self_frame_skip := 5\<rparr>) [Fin 0] = [Fin 1]
   \<and> contains (self_true_action_space (toy_wrapper\<lparr>self_frame_skip := 5\<rparr>)) [Fin 1]
   \<and> map (ts_reward \<circ> snd) (sub_steps (toy_world toy_spec) 3 [Fin 1] 0) =
        [None, Some (Fin 2), Some (Fin 3)]
   \<and> map (ts_last \<circ> snd) (sub_steps (toy_world toy_spec) 3 [Fin 1] 0) = [False, False, True]
   \<and> step (toy_world toy_spec) (toy_wrapper\<lparr>self_frame_skip := 5\<rparr>) [Fin 0] =
       Inr ((Pixels [[[7, 10]], [[7, 1]], [[7, 9]]], Fin 5, True,
             \<lparr>internal_state = [Fin 0], discount = Some (Fin 1)\<rparr>),
            toy_wrapper\<lparr>self_frame_skip := 5, self_env := 3,
              self_bg_source := Some (RandomColorSource (1, 2), 1)\<rparr>)"
proof -
  let ?w = "toy_wrapper\<lparr>self_frame_skip := 5\<rparr>"
  let ?X = "toy_world toy_spec"
  have fs: "1 \<le> self_frame_skip ?w" by simp
  have spaces: "self_norm_action_space ?w = \<lparr>low = [Fin (- 1)], high = [Fin 1]\<rparr>"
    "self_true_action_space ?w = \<lparr>low = [Fin (- 2)], high = [Fin 4]\<rparr>"
    "self_env ?w = 0"
    by (simp_all add: toy_wrapper_def)
  have c1: "contains (self_norm_action_space ?w) [Fin 0]"
    by (simp add: spaces contains_def)
  have cv: "convert_action ?w [Fin 0] = [Fin 1]"
    by (simp add: convert_action_def spaces fsub_def)
  have c2: "contains (self_true_action_space ?w) [Fin 1]"
    by (simp add: spaces contains_def)
  have tr: "sub_steps ?X 3 [Fin 1] 0 =
      [(Suc 0, toy_time_step (Suc 0)), (Suc (Suc 0), toy_time_step (Suc (Suc 0))),
       (Suc (Suc (Suc 0)), toy_time_step (Suc (Suc (Suc 0))))]"
    by (simp add: numeral_3_eq_3 toy_step)
  have tr2: "sub_steps ?X 2 [Fin 1] 0 =
      [(Suc 0, toy_time_step (Suc 0)), (Suc (Suc 0), toy_time_step (Suc (Suc 0)))]"
    by (simp add: numeral_2_eq_2 toy_step)
  have tr1: "sub_steps ?X 1 [Fin 1] 0 = [(Suc 0, toy_time_step (Suc 0))]"
    by (simp add: toy_step)
  from step_frame_skip [OF fs, of ?X "[Fin 0]"]
  obtain n where n: "1 \<le> n" "int n \<le> self_frame_skip ?w"
    "\<forall>i<n - 1. \<not> ts_last (snd (sub_steps ?X n (convert_action ?w [Fin 0]) (self_env ?w) ! i))"
    "int n < self_frame_skip ?w \<longrightarrow>
       ts_last (snd (last (sub_steps ?X n (convert_action ?w [Fin 0]) (self_env ?w))))"
    "contains (self_norm_action_space ?w) [Fin 0]
       \<and> contains (self_true_action_space ?w) (convert_action ?w [Fin 0]) \<longrightarrow>
     step ?X ?w [Fin 0] =
           (case get_obs ?X
                   (?w\<lparr>self_env := fst (last (sub_steps ?X n (convert_action ?w [Fin 0])
                                               (self_env ?w)))\<rparr>)
                   (TS (snd (last (sub_steps ?X n (convert_action ?w [Fin 0]) (self_env ?w))))) of
              Inl e \<Rightarrow> Inl e
            | Inr (obs, w') \<Rightarrow>
                Inr ((obs, foldl fadd (Fin 0)
                             (map reward_of (sub_steps ?X n (convert_action ?w [Fin 0])
                                               (self_env ?w))),
                      ts_last (snd (last (sub_steps ?X n (convert_action ?w [Fin 0])
                                            (self_env ?w)))),
                      \<lparr>internal_state = physics_get_state ?X (self_env ?w),
                       discount = ts_discount (snd (last (sub_steps ?X n
                                     (convert_action ?w [Fin 0]) (self_env ?w))))\<rparr>), w'))"
    unfolding Let_def
    apply (elim exE conjE)
    apply (rule that; assumption)
    done
  have n2: "n \<le> 5" using n(2) by simp
  have "n = 1 \<or> n = 2 \<or> n = 3 \<or> n = 4 \<or> n = 5"
    using n(1) n2 by presburger
  then have n3: "n = 3"
  proof (elim disjE)
    assume "n = 1" then show ?thesis
      using n(4) tr1 by (simp add: toy_time_step_def cv spaces)
  next
    assume "n = 2" then show ?thesis
      using n(4) tr2 by (simp add: toy_time_step_def cv spaces)
  next
    assume "n = 3" then show ?thesis .
  next
    assume "n = 4" then show ?thesis
      using n(3) [rule_format, of 2]
      by (simp add: eval_nat_numeral toy_step toy_time_step_def cv spaces)
  next
    assume "n = 5" then show ?thesis
      using n(3) [rule_format, of 2]
      by (simp add: eval_nat_numeral toy_step toy_time_step_def cv spaces)
  qed
  have go: "get_obs ?X (?w\<lparr>self_env := Suc (Suc (Suc 0))\<rparr>) t =
      Inr (Pixels [[[7, 10]], [[7, 1]], [[7, 9]]],
          toy_wrapper\<lparr>self_frame_skip := 5, self_env := 3,
            self_bg_source := Some (RandomColorSource (1, 2), 1)\<rparr>)" for t
    using toy_get_obs [where sp = toy_spec and k = 5 and s = "Suc (Suc (Suc 0))" and ts = t]
    by (simp add: numeral_3_eq_3)
  have st: "step ?X ?w [Fin 0] =
       Inr ((Pixels [[[7, 10]], [[7, 1]], [[7, 9]]], Fin 5, True,
             \<lparr>internal_state = [Fin 0], discount = Some (Fin 1)\<rparr>),
            toy_wrapper\<lparr>self_frame_skip := 5, self_env := 3,
              self_bg_source := Some (RandomColorSource (1, 2), 1)\<rparr>)"
    using n(5) c1 c2 unfolding n3 cv spaces tr
    by (simp add: go reward_of_def toy_time_step_def toy_state)
  show ?thesis
    using fs c1 cv c2 st by (simp add: tr spaces toy_time_step_def)
qed

subsection \<open>Flattened observations\<close>

lemma flatten_loop_append: "flatten_loop vs obs_pieces = obs_pieces @ map flat vs"
  by (induction vs arbitrary: obs_pieces) simp_all

lemma flatten_obs_eq:
  "flatten_obs obs =
     (if obs = [] then Inl ValueError else Inr (concat (map (\<lambda>(k, v). flat v) obs)))"
  by (simp add: flatten_obs_def flatten_loop_append Let_def split_def comp_def)

lemma length_flat: "well_shaped v \<Longrightarrow> length (flat v) = np_size v"
  by (cases v) simp_all

lemma length_flat_concat:
  "\<forall>(k, v) \<in> set obs. well_shaped v \<Longrightarrow>
   length (concat (map (\<lambda>(k, v). flat v) obs)) = sum_list (map (\<lambda>(k, v). np_size v) obs)"
  by (induction obs) (auto simp: length_flat)

text \<open>
  Claim C4. Without \<open>from_pixels\<close>, the observation that \<open>_get_obs\<close>, \<open>reset\<close> and
  \<open>step\<close> return is \<open>_flatten_obs\<close> of the observation dict of the time step (for
  \<open>step\<close>, that of the last sub-step executed): the concatenation, in the order of the
  dict, of \<open>[v]\<close> for a scalar \<open>v\<close> and of \<open>v.ravel()\<close> for an array. Its length is
  the sum of the sizes of the values. A dict with no entry returns nothing:
  \<open>np.concatenate\<close> raises \<open>ValueError\<close>.
\<close>

theorem flat_observation:
  assumes "\<not> self_from_pixels w"
  shows "flatten_obs obs =
      (if obs = [] then Inl ValueError else Inr (concat (map (\<lambda>(k, v). flat v) obs)))
    \<and> ((\<forall>(k, v) \<in> set obs. well_shaped v) \<longrightarrow>
         length (concat (map (\<lambda>(k, v). flat v) obs)) =
           sum_list (map (\<lambda>(k, v). np_size v) obs))
    \<and> get_obs X w (TS ts) =
        (case flatten_obs (ts_observation ts) of
           Inl e \<Rightarrow> Inl e
         | Inr v \<Rightarrow> Inr (Flat v, w))
    \<and> reset X w =
        (case flatten_obs (ts_observation (snd (env_reset X (self_env w)))) of
           Inl e \<Rightarrow> Inl e
         | Inr v \<Rightarrow> Inr (Flat v, w\<lparr>self_env := fst (env_reset X (self_env w))\<rparr>))
    \<and> (\<forall>o' reward done' ex w'.
         step X w action = Inr ((o', reward, done', ex), w') \<longrightarrow>
         (\<exists>n. 1 \<le> n \<and> int n \<le> self_frame_skip w
            \<and> flatten_obs (ts_observation (snd (last
                 (sub_steps X n (convert_action w action) (self_env w))))) = Inr
                 (concat (map (\<lambda>(k, v). flat v) (ts_observation (snd (last
                 (sub_steps X n (convert_action w action) (self_env w)))))))
            \<and> o' = Flat (concat (map (\<lambda>(k, v). flat v) (ts_observation (snd (last
                 (sub_steps X n (convert_action w action) (self_env w)))))))))"
proof -
  have g: "get_obs X w' (TS t) =
        (case flatten_obs (ts_observation t) of
           Inl e \<Rightarrow> Inl e
         | Inr v \<Rightarrow> Inr (Flat v, w'))" if "\<not> self_from_pixels w'" for w' t
    using that by (simp add: get_obs_def)
  have r: "reset X w =
        (case flatten_obs (ts_observation (snd (env_reset X (self_env w)))) of
           Inl e \<Rightarrow> Inl e
         | Inr v \<Rightarrow> Inr (Flat v, w\<lparr>self_env := fst (env_reset X (self_env w))\<rparr>))"
    using assms by (simp add: reset_def split_def g Let_def)
  have s: "\<exists>n. 1 \<le> n \<and> int n \<le> self_frame_skip w
            \<and> flatten_obs (ts_observation (snd (last
                 (sub_steps X n (convert_action w action) (self_env w))))) = Inr
                 (concat (map (\<lambda>(k, v). flat v) (ts_observation (snd (last
                 (sub_steps X n (convert_action w action) (self_env w)))))))
            \<and> o' = Flat (concat (map (\<lambda>(k, v). flat v) (ts_observation (snd (last
                 (sub_steps X n (convert_action w action) (self_env w)))))))"
    if st: "step X w action = Inr ((o', reward, done', ex), w')" for o' reward done' ex w'
  proof -
    have c: "contains (self_norm_action_space w) action"
      "contains (self_true_action_space w) (convert_action w action)"
      using st by (auto simp: step_def Let_def split: if_splits)
    have fs: "1 \<le> self_frame_skip w"
    proof (rule ccontr)
      assume "\<not> 1 \<le> self_frame_skip w"
      then have "nat (self_frame_skip w) = 0" by simp
      then show False using st c by (simp add: step_def Let_def)
    qed
    from step_trace [OF fs, of X action] c
    obtain n where n: "1 \<le> n" "int n \<le> self_frame_skip w"
      "step X w action =
           (case get_obs X (w\<lparr>self_env := fst (last (sub_steps X n (convert_action w action)
                     (self_env w)))\<rparr>)
                   (TS (snd (last (sub_steps X n (convert_action w action) (self_env w))))) of
              Inl e \<Rightarrow> Inl e
            | Inr (obs, w') \<Rightarrow>
                Inr ((obs, foldl fadd (Fin 0)
                        (map reward_of (sub_steps X n (convert_action w action) (self_env w))),
                      ts_last (snd (last (sub_steps X n (convert_action w action) (self_env w)))),
                      \<lparr>internal_state = physics_get_state X (self_env w),
                       discount = ts_discount (snd (last (sub_steps X n (convert_action w action)
                          (self_env w))))\<rparr>), w'))"
      by blast
    show ?thesis
      apply (rule exI [of _ n])
      using n(1,2) st assms unfolding n(3)
      by (auto simp: g flatten_obs_eq split: sum.splits if_splits)
  qed
  show ?thesis
    using g [OF assms] r s flatten_obs_eq length_flat_concat by blast
qed


theorem flat_observation_witness:
  "\<not> self_from_pixels toy_state_wrapper
   \<and> list_all (well_shaped \<circ> snd) (ts_observation (toy_time_step 0))
   \<and> flatten_obs (ts_observation (toy_time_step 0)) = Inr [Fin 0, Fin 0, Fin 1]
   \<and> sum_list (map (\<lambda>(k, v). np_size v) (ts_observation (toy_time_step 0))) = 3
   \<and> reset (toy_world toy_spec) toy_state_wrapper =
        Inr (Flat [Fin 0, Fin 0, Fin 1], toy_state_wrapper\<lparr>self_env := 0\<rparr>)
   \<and> step (toy_world toy_spec) toy_state_wrapper [Fin 0] =
        Inr ((Flat [Fin 2, Fin 0, Fin 1], Fin 2, False,
              \<lparr>internal_state = [Fin 0], discount = Some (Fin 1)\<rparr>),
             toy_state_wrapper\<lparr>self_env := 2\<rparr>)
   \<and> (\<exists>n. 1 \<le> n \<and> n \<le> 2 \<and>
         Flat [Fin 2, Fin 0, Fin 1] =
           Flat (concat (map (\<lambda>(k, v). flat v) (ts_observation (snd (last
             (sub_steps (toy_world toy_spec) n [Fin 1] 0)))))))"
proof -
  let ?X = "toy_world toy_spec"
  let ?w = toy_state_wrapper
  let ?obs = "ts_observation (toy_time_step 0)"
  have p: "\<not> self_from_pixels ?w"
    by (simp add: toy_state_wrapper_def)
  have f: "self_env ?w = 0" "self_frame_skip ?w = 2"
    "self_norm_action_space ?w = \<lparr>low = [Fin (- 1)], high = [Fin 1]\<rparr>"
    "self_true_action_space ?w = \<lparr>low = [Fin (- 2)], high = [Fin 4]\<rparr>"
    by (simp_all add: toy_state_wrapper_def toy_wrapper_def)
  have cv: "convert_action ?w [Fin 0] = [Fin 1]"
    by (simp add: convert_action_def f fsub_def)
  have ws: "\<forall>(k, v) \<in> set ?obs. well_shaped v"
    by (simp add: toy_time_step_def)
  have rs: "env_reset ?X 0 = (0, toy_time_step 0)"
    by (simp add: toy_world_def)
  note th = flat_observation [OF p, of ?obs ?X "toy_time_step 0" "[Fin 0]"]
  have a: "flatten_obs ?obs = Inr [Fin 0, Fin 0, Fin 1]"
    using th [THEN conjunct1] by (simp add: toy_time_step_def)
  have b: "sum_list (map (\<lambda>(k, v). np_size v) ?obs) = 3"
    using th [THEN conjunct2, THEN conjunct1] ws a by (simp add: toy_time_step_def)
  have c: "reset ?X ?w = Inr (Flat [Fin 0, Fin 0, Fin 1], ?w\<lparr>self_env := 0\<rparr>)"
    using th [THEN conjunct2, THEN conjunct2, THEN conjunct2, THEN conjunct1] a
    by (simp add: f rs)
  have d: "step ?X ?w [Fin 0] =
        Inr ((Flat [Fin 2, Fin 0, Fin 1], Fin 2, False,
              \<lparr>internal_state = [Fin 0], discount = Some (Fin 1)\<rparr>),
             ?w\<lparr>self_env := 2\<rparr>)"
    by (simp add: step_def f cv contains_def numeral_2_eq_2 toy_step toy_state Let_def
        reward_or_0_def toy_time_step_def get_obs_def p flatten_obs_def)
  have e: "\<exists>n. 1 \<le> n \<and> n \<le> 2 \<and>
         Flat [Fin 2, Fin 0, Fin 1] =
           Flat (concat (map (\<lambda>(k, v). flat v) (ts_observation (snd (last
             (sub_steps ?X n [Fin 1] 0))))))"
    using th [THEN conjunct2, THEN conjunct2, THEN conjunct2, THEN conjunct2, rule_format, OF d]
    by (auto simp: f cv)
  have ws': "list_all (well_shaped \<circ> snd) ?obs"
    by (simp add: toy_time_step_def)
  show ?thesis
    using p ws' a b c d e by simp
qed

subsection \<open>Pixel observations\<close>

lemma has_shape2_nth: "has_shape2 h wd a \<Longrightarrow> i < h \<Longrightarrow> length (a ! i) = wd"
  by (simp add: has_shape2_def)

lemma masked_assign_ok:
  assumes "has_shape2 h wd obs" and "has_shape2 h wd bg"
  shows "masked_assign obs (mask_of obs) bg =
     Inr (map2 (\<lambda>orow (mrow, brow). map2 (\<lambda>p (m, b). if m then b else p) orow (zip mrow brow))
            obs (zip (mask_of obs) bg))"
proof -
  have "list_all2 (\<lambda>mrow brow. length mrow = length brow) (mask_of obs) bg"
    using assms by (auto simp: list_all2_conv_all_nth mask_of_def has_shape2_def)
  then show ?thesis by (simp add: masked_assign_def)
qed

lemma masked_assign_nth:
  assumes "masked_assign obs (mask_of obs) bg = Inr r" and "has_shape2 h wd obs"
    and "i < h" and "j < wd"
  shows "length bg = h \<and> length (bg ! i) = wd
    \<and> r ! i ! j = (let p = obs ! i ! j in
                   if ch2 p > ch1 p \<and> ch2 p > ch0 p then bg ! i ! j else p)"
proof -
  have la: "list_all2 (\<lambda>mrow brow. length mrow = length brow) (mask_of obs) bg"
    and r: "r = map2 (\<lambda>orow (mrow, brow).
                  map2 (\<lambda>p (m, b). if m then b else p) orow (zip mrow brow))
                obs (zip (mask_of obs) bg)"
    using assms(1) by (auto simp: masked_assign_def split: if_splits)
  have lo: "length obs = h" "length (obs ! i) = wd"
    using assms(2,3) by (simp_all add: has_shape2_def)
  have lb: "length bg = h"
    using la lo by (simp add: list_all2_conv_all_nth mask_of_def)
  have lbi: "length (bg ! i) = wd"
    using la lo assms(3) by (simp add: list_all2_conv_all_nth mask_of_def)
  show ?thesis
    using lo lb lbi assms(3,4) by (simp add: r mask_of_def Let_def)
qed

lemma masked_assign_shape:
  assumes "masked_assign obs (mask_of obs) bg = Inr r" and "has_shape2 h wd obs"
  shows "has_shape2 h wd r"
proof -
  have la: "list_all2 (\<lambda>mrow brow. length mrow = length brow) (mask_of obs) bg"
    and r: "r = map2 (\<lambda>orow (mrow, brow).
                  map2 (\<lambda>p (m, b). if m then b else p) orow (zip mrow brow))
                obs (zip (mask_of obs) bg)"
    using assms(1) by (auto simp: masked_assign_def split: if_splits)
  have lo: "length obs = h" "\<forall>i<h. length (obs ! i) = wd"
    using assms(2) by (simp_all add: has_shape2_def)
  have lb: "length bg = h" "\<forall>i<h. length (bg ! i) = wd"
    using la lo by (simp_all add: list_all2_conv_all_nth mask_of_def)
  have lr: "length r = h"
    using lo lb by (simp add: r mask_of_def)
  have "length (r ! i) = wd" if "i < h" for i
    using that lo lb by (simp add: r mask_of_def)
  then show ?thesis
    using lr by (auto simp: has_shape2_def in_set_conv_nth)
qed

lemma transpose_shape:
  "has_shape2 h wd f \<Longrightarrow> has_shape3 3 h wd (transpose_2_0_1 f)"
  by (auto simp: has_shape2_def has_shape3_def transpose_2_0_1_def)

lemma transpose_nth:
  assumes "i < length f" and "j < length (f ! i)"
  shows "transpose_2_0_1 f ! 0 ! i ! j = ch0 (f ! i ! j)
    \<and> transpose_2_0_1 f ! 1 ! i ! j = ch1 (f ! i ! j)
    \<and> transpose_2_0_1 f ! 2 ! i ! j = ch2 (f ! i ! j)"
  using assms by (simp add: transpose_2_0_1_def numeral_2_eq_2)

lemma get_obs_pixels_shape:
  assumes "self_from_pixels w" and "get_obs X w ts = Inr (obs, w')"
    and "has_shape2 h wd (physics_render X (self_env w) (self_height w) (self_width w)
           (self_camera_id w))"
  shows "\<exists>p. obs = Pixels p \<and> has_shape3 3 h wd p"
  using assms
  by (auto simp: get_obs_def render_impl_def or_size_def or_int_def Let_def
      intro!: transpose_shape masked_assign_shape
      split: if_splits option.splits prod.splits sum.splits)

lemma step_obs:
  assumes "step X w action = Inr ((obs, reward, done', ex), w')"
  shows "\<exists>env' ts. get_obs X (w\<lparr>self_env := env'\<rparr>) (TS ts) = Inr (obs, w')"
  using assms
  by (auto simp: step_def Let_def split: if_splits prod.splits option.splits sum.splits)

lemma reset_obs:
  "reset X w = get_obs X (w\<lparr>self_env := fst (env_reset X (self_env w))\<rparr>)
                 (TS (snd (env_reset X (self_env w))))"
  by (simp add: reset_def split_def Let_def)


lemma all_bytes: "\<forall>plane \<in> set a. \<forall>row \<in> set plane. \<forall>v \<in> set row. 0 \<le> unat (v :: 8 word) \<and> unat v \<le> 255"
proof (intro ballI)
  fix plane row and v :: "8 word"
  have "unat v < 2 ^ 8" using unsigned_less [of v] by simp
  then show "0 \<le> unat v \<and> unat v \<le> 255" by simp
qed

text \<open>
  Claim C1. On a wrapper with \<open>from_pixels\<close> and a distractor type, whose background
  source returns an image of the shape of the rendered frame, \<open>_get_obs\<close> returns the
  frame in which exactly the pixels whose channel 2 is strictly greater than both their
  channel 1 and their channel 0 are the pixels of the background image at the same
  position, every other pixel being that of the frame, transposed from \<open>(H, W, 3)\<close> to
  \<open>(3, H, W)\<close>. \<open>reset\<close> returns \<open>_get_obs\<close> in the state after the reset, and an
  observation that \<open>step\<close> returns is one that \<open>_get_obs\<close> returns in the state the
  sub-steps leave.
\<close>

theorem get_obs_distractor:
  assumes "self_from_pixels w" and "self_img_source w \<noteq> None"
    and "self_bg_source w = Some (src, g)"
    and "physics_render X (self_env w) (self_height w) (self_width w) (self_camera_id w) = frm"
    and "get_image X src g = (bg, g')"
    and "has_shape2 h wd frm" and "has_shape2 h wd bg"
  shows "(\<exists>obs. get_obs X w ts = Inr (Pixels obs, w\<lparr>self_bg_source := Some (src, g')\<rparr>)
      \<and> has_shape3 3 h wd obs
      \<and> (\<forall>i<h. \<forall>j<wd.
            let p = frm ! i ! j;
                q = (if ch2 p > ch1 p \<and> ch2 p > ch0 p then bg ! i ! j else p)
            in obs ! 0 ! i ! j = ch0 q \<and> obs ! 1 ! i ! j = ch1 q \<and> obs ! 2 ! i ! j = ch2 q))
    \<and> reset X w = get_obs X (w\<lparr>self_env := fst (env_reset X (self_env w))\<rparr>)
                     (TS (snd (env_reset X (self_env w))))
    \<and> (\<forall>obs reward done' ex w'.
          step X w action = Inr ((obs, reward, done', ex), w') \<longrightarrow>
          (\<exists>env' t. get_obs X (w\<lparr>self_env := env'\<rparr>) (TS t) = Inr (obs, w')))"
proof -
  from masked_assign_ok [OF assms(6,7)]
  obtain r where r: "masked_assign frm (mask_of frm) bg = Inr r" by blast
  have sh: "has_shape2 h wd r"
    using masked_assign_shape [OF r assms(6)] .
  have go: "get_obs X w ts =
      Inr (Pixels (transpose_2_0_1 r), w\<lparr>self_bg_source := Some (src, g')\<rparr>)"
    using assms(1-5) r
    by (simp add: get_obs_def render_impl_def or_size_def or_int_def Let_def)
  have px: "let p = frm ! i ! j;
                q = (if ch2 p > ch1 p \<and> ch2 p > ch0 p then bg ! i ! j else p)
            in transpose_2_0_1 r ! 0 ! i ! j = ch0 q \<and> transpose_2_0_1 r ! 1 ! i ! j = ch1 q
               \<and> transpose_2_0_1 r ! 2 ! i ! j = ch2 q"
    if "i < h" and "j < wd" for i j
  proof -
    have l: "i < length r" "j < length (r ! i)"
      using sh that by (simp_all add: has_shape2_def)
    show ?thesis
      using transpose_nth [OF l] masked_assign_nth [OF r assms(6) that]
      by (simp add: Let_def)
  qed
  have a: "\<exists>obs. get_obs X w ts = Inr (Pixels obs, w\<lparr>self_bg_source := Some (src, g')\<rparr>)
      \<and> has_shape3 3 h wd obs
      \<and> (\<forall>i<h. \<forall>j<wd.
            let p = frm ! i ! j;
                q = (if ch2 p > ch1 p \<and> ch2 p > ch0 p then bg ! i ! j else p)
            in obs ! 0 ! i ! j = ch0 q \<and> obs ! 1 ! i ! j = ch1 q \<and> obs ! 2 ! i ! j = ch2 q)"
    apply (rule exI [of _ "transpose_2_0_1 r"])
    using go transpose_shape [OF sh] px by blast
  show ?thesis
    using a reset_obs [of X w] step_obs [of X w action] by blast
qed

lemma get_obs_in_space:
  assumes "pixel_wrapper w" and "get_obs X w ts = Inr (obs, w')"
    and "\<forall>s h wd c. has_shape2 h wd (physics_render X s h wd c)"
  shows "obs_contains (observation_space w') obs
    \<and> (\<exists>p. obs = Pixels p \<and> has_shape3 3 (self_height w) (self_width w) p)
    \<and> pixel_wrapper w' \<and> observation_space w' = observation_space w
    \<and> self_height w' = self_height w \<and> self_width w' = self_width w"
proof -
  have fp: "self_from_pixels w"
    and os: "self_observation_space w = PixelBox 0 255 [3, self_height w, self_width w]"
    using assms(1) by (simp_all add: pixel_wrapper_def)
  from get_obs_pixels_shape [OF fp assms(2)] assms(3)
  obtain p where p: "obs = Pixels p" "has_shape3 3 (self_height w) (self_width w) p"
    by blast
  have w': "w' = w\<lparr>self_bg_source := self_bg_source w'\<rparr>"
    using get_obs_fields [OF assms(2)] .
  have eqs: "self_observation_space w' = self_observation_space w"
    "self_height w' = self_height w" "self_width w' = self_width w"
    "self_from_pixels w' = self_from_pixels w"
    by (subst w', simp)+
  show ?thesis
    using p eqs fp os all_bytes [of p]
    by (simp add: observation_space_def pixel_wrapper_def)
qed

text \<open>
  Claim C10. A renderer that returns frames of the height and width it is asked for
  is assumed. With \<open>from_pixels\<close>, \<open>__init__\<close> sets the observation space to
  \<open>Box(low=0, high=255, shape=[3, height, width], dtype=uint8)\<close>; every observation that
  \<open>reset\<close> and \<open>step\<close> return on such a wrapper has shape \<open>(3, height, width)\<close> and
  lies in that space, and the wrapper they leave has the same space, height and width.
\<close>

theorem pixel_observation_in_space:
  assumes "\<forall>s h wd c. has_shape2 h wd (physics_render X s h wd c)"
  shows "(\<forall>w. init X args = Inr w \<and> arg_from_pixels args \<longrightarrow>
            observation_space w = PixelBox 0 255 [3, arg_height args, arg_width args]
            \<and> self_height w = arg_height args \<and> self_width w = arg_width args
            \<and> pixel_wrapper w)
    \<and> (\<forall>w obs w'. pixel_wrapper w \<and> reset X w = Inr (obs, w') \<longrightarrow>
            obs_contains (observation_space w') obs
            \<and> (\<exists>p. obs = Pixels p \<and> has_shape3 3 (self_height w) (self_width w) p)
            \<and> pixel_wrapper w' \<and> observation_space w' = observation_space w
            \<and> self_height w' = self_height w \<and> self_width w' = self_width w)
    \<and> (\<forall>w action obs reward done' ex w'.
            pixel_wrapper w \<and> step X w action = Inr ((obs, reward, done', ex), w') \<longrightarrow>
            obs_contains (observation_space w') obs
            \<and> (\<exists>p. obs = Pixels p \<and> has_shape3 3 (self_height w) (self_width w) p)
            \<and> pixel_wrapper w' \<and> observation_space w' = observation_space w
            \<and> self_height w' = self_height w \<and> self_width w' = self_width w)"
proof (intro conjI allI impI)
  fix w assume "init X args = Inr w \<and> arg_from_pixels args"
  then have i: "init X args = Inr w" and p: "arg_from_pixels args" by simp_all
  from init_fields [OF i] p
  have f: "self_from_pixels w" "self_height w = arg_height args" "self_width w = arg_width args"
    "self_observation_space w = PixelBox 0 255 [3, arg_height args, arg_width args]"
    by (simp_all add: init_observation_space_def)
  show "observation_space w = PixelBox 0 255 [3, arg_height args, arg_width args]"
    "self_height w = arg_height args" "self_width w = arg_width args" "pixel_wrapper w"
    using f by (simp_all add: observation_space_def pixel_wrapper_def)
next
  fix w obs w'
  assume a: "pixel_wrapper w \<and> reset X w = Inr (obs, w')"
  let ?w = "w\<lparr>self_env := fst (env_reset X (self_env w))\<rparr>"
  have pw: "pixel_wrapper ?w" using a by (simp add: pixel_wrapper_def)
  have go: "get_obs X ?w (TS (snd (env_reset X (self_env w)))) = Inr (obs, w')"
    using a reset_obs [of X w] by simp
  from get_obs_in_space [OF pw go assms]
  show "obs_contains (observation_space w') obs"
    "\<exists>p. obs = Pixels p \<and> has_shape3 3 (self_height w) (self_width w) p"
    "pixel_wrapper w'" "observation_space w' = observation_space w"
    "self_height w' = self_height w" "self_width w' = self_width w"
    by (auto simp: observation_space_def)
next
  fix w action obs reward done' ex w'
  assume a: "pixel_wrapper w \<and> step X w action = Inr ((obs, reward, done', ex), w')"
  then obtain env' t where go: "get_obs X (w\<lparr>self_env := env'\<rparr>) (TS t) = Inr (obs, w')"
    using step_obs by blast
  have pw: "pixel_wrapper (w\<lparr>self_env := env'\<rparr>)" using a by (simp add: pixel_wrapper_def)
  from get_obs_in_space [OF pw go assms]
  show "obs_contains (observation_space w') obs"
    "\<exists>p. obs = Pixels p \<and> has_shape3 3 (self_height w) (self_width w) p"
    "pixel_wrapper w'" "observation_space w' = observation_space w"
    "self_height w' = self_height w" "self_width w' = self_width w"
    by (auto simp: observation_space_def)
qed


lemma toy_get_obs_gen:
  assumes "self_from_pixels w" and "self_img_source w = Some ''color''"
    and "self_bg_source w = Some (RandomColorSource (Suc 0, 2), g)"
    and "self_height w = Suc 0" and "self_width w = 2" and "self_camera_id w = 1"
  shows "get_obs (toy_world sp) w ts =
     Inr (Pixels [[[7, 10]], [[7, 1]], [[7, 9]]],
          w\<lparr>self_bg_source := Some (RandomColorSource (Suc 0, 2), Suc g)\<rparr>)"
  using assms
  by (simp add: get_obs_def render_impl_def or_size_def or_int_def
      toy_render toy_get_image mask_of_def masked_assign_def transpose_2_0_1_def)

lemma toy_wrapper_fields:
  "self_from_pixels toy_wrapper" "self_img_source toy_wrapper = Some ''color''"
  "self_bg_source toy_wrapper = Some (RandomColorSource (Suc 0, 2), 0)"
  "self_height toy_wrapper = Suc 0" "self_width toy_wrapper = 2"
  "self_camera_id toy_wrapper = 1" "self_env toy_wrapper = 0"
  "self_frame_skip toy_wrapper = 2"
  "self_norm_action_space toy_wrapper = \<lparr>low = [Fin (- 1)], high = [Fin 1]\<rparr>"
  "self_true_action_space toy_wrapper = \<lparr>low = [Fin (- 2)], high = [Fin 4]\<rparr>"
  "self_observation_space toy_wrapper = PixelBox 0 255 [3, Suc 0, 2]"
  by (simp_all add: toy_wrapper_def)

lemma toy_convert: "convert_action toy_wrapper [Fin 0] = [Fin 1]"
  by (simp add: convert_action_def toy_wrapper_fields fsub_def)

lemma toy_reset_eval:
  "reset (toy_world toy_spec) toy_wrapper =
     Inr (Pixels [[[7, 10]], [[7, 1]], [[7, 9]]],
          toy_wrapper\<lparr>self_env := 0,
            self_bg_source := Some (RandomColorSource (Suc 0, 2), Suc 0)\<rparr>)"
proof -
  have r: "env_reset (toy_world toy_spec) 0 = (0, toy_time_step 0)"
    by (simp add: toy_world_def)
  show ?thesis
    by (simp add: reset_def toy_wrapper_fields r toy_get_obs_gen [where g = 0])
qed

lemma toy_loop_eval:
  "frame_skip_loop (toy_world sp) (Suc (Suc 0)) a (0, Fin 0, None, None) =
     (Suc (Suc 0), Fin 2, Some (toy_time_step (Suc (Suc 0))), Some False)"
  by (simp add: toy_step Let_def reward_or_0_def toy_time_step_def)

lemma toy_step_eval:
  "step (toy_world toy_spec) toy_wrapper [Fin 0] =
     Inr ((Pixels [[[7, 10]], [[7, 1]], [[7, 9]]], Fin 2, False,
           \<lparr>internal_state = [Fin 0], discount = Some (Fin 1)\<rparr>),
          toy_wrapper\<lparr>self_env := Suc (Suc 0),
            self_bg_source := Some (RandomColorSource (Suc 0, 2), Suc 0)\<rparr>)"
proof -
  have n: "nat (self_frame_skip toy_wrapper) = Suc (Suc 0)"
    by (simp add: toy_wrapper_fields)
  have c: "contains (self_norm_action_space toy_wrapper) [Fin 0]"
    "contains (self_true_action_space toy_wrapper) [Fin 1]"
    by (simp_all add: toy_wrapper_fields contains_def)
  have d: "ts_discount (toy_time_step (Suc (Suc 0))) = Some (Fin 1)"
    by (simp add: toy_time_step_def)
  show ?thesis
    unfolding step_def Let_def toy_convert n
    by (simp add: c toy_loop_eval toy_state toy_wrapper_fields(7) d
        toy_get_obs_gen [where g = 0] toy_wrapper_fields(1-6) del: frame_skip_loop.simps)
qed

lemma toy_render_shape:
  "\<forall>s h wd c. has_shape2 h wd (physics_render (toy_world sp) s h wd c)"
  by (simp add: toy_world_def has_shape2_def)

theorem get_obs_distractor_witness:
  "self_from_pixels toy_wrapper \<and> self_img_source toy_wrapper \<noteq> None
   \<and> self_bg_source toy_wrapper = Some (RandomColorSource (1, 2), 0)
   \<and> physics_render (toy_world toy_spec) (self_env toy_wrapper) (self_height toy_wrapper)
        (self_width toy_wrapper) (self_camera_id toy_wrapper) = [[Pixel 0 1 9, Pixel 10 1 9]]
   \<and> get_image (toy_world toy_spec) (RandomColorSource (1, 2)) 0 =
        ([[Pixel 7 7 7, Pixel 7 7 7]], 1)
   \<and> has_shape2 1 2 [[Pixel 0 1 9, Pixel 10 1 9]]
   \<and> has_shape2 1 2 [[Pixel 7 7 7, Pixel 7 7 7 :: pixel]]
   \<and> (\<exists>obs. get_obs (toy_world toy_spec) toy_wrapper (PyInt 0) =
          Inr (Pixels obs, toy_wrapper\<lparr>self_bg_source := Some (RandomColorSource (1, 2), 1)\<rparr>)
        \<and> has_shape3 3 1 2 obs
        \<and> obs ! 0 ! 0 ! 0 = 7 \<and> obs ! 1 ! 0 ! 0 = 7 \<and> obs ! 2 ! 0 ! 0 = 7
        \<and> obs ! 0 ! 0 ! 1 = 10 \<and> obs ! 1 ! 0 ! 1 = 1 \<and> obs ! 2 ! 0 ! 1 = 9)
   \<and> get_obs (toy_world toy_spec) toy_wrapper (PyInt 0) =
       Inr (Pixels [[[7, 10]], [[7, 1]], [[7, 9]]],
            toy_wrapper\<lparr>self_bg_source := Some (RandomColorSource (1, 2), 1)\<rparr>)"
proof -
  let ?X = "toy_world toy_spec"
  have a: "self_from_pixels toy_wrapper" "self_img_source toy_wrapper \<noteq> None"
    "self_bg_source toy_wrapper = Some (RandomColorSource (1, 2), 0)"
    by (simp_all add: toy_wrapper_fields)
  have f: "physics_render ?X (self_env toy_wrapper) (self_height toy_wrapper)
        (self_width toy_wrapper) (self_camera_id toy_wrapper) = [[Pixel 0 1 9, Pixel 10 1 9]]"
    by (simp add: toy_wrapper_fields toy_render)
  have b: "get_image ?X (RandomColorSource (1, 2)) 0 = ([[Pixel 7 7 7, Pixel 7 7 7]], 1)"
    by (simp add: toy_get_image)
  have s1: "has_shape2 1 2 [[Pixel 0 1 9, Pixel 10 1 9]]"
    and s2: "has_shape2 1 2 [[Pixel 7 7 7, Pixel 7 7 7 :: pixel]]"
    by (simp_all add: has_shape2_def)
  from get_obs_distractor [OF a f b s1 s2, of "PyInt 0" "[Fin 0]", THEN conjunct1]
  obtain obs where o: "get_obs ?X toy_wrapper (PyInt 0) =
          Inr (Pixels obs, toy_wrapper\<lparr>self_bg_source := Some (RandomColorSource (1, 2), 1)\<rparr>)"
    "has_shape3 3 1 2 obs"
    "\<forall>i<1. \<forall>j<2.
            let p = [[Pixel 0 1 9, Pixel 10 1 9]] ! i ! j;
                q = (if ch2 p > ch1 p \<and> ch2 p > ch0 p then [[Pixel 7 7 7, Pixel 7 7 7]] ! i ! j
                     else p)
            in obs ! 0 ! i ! j = ch0 q \<and> obs ! 1 ! i ! j = ch1 q \<and> obs ! 2 ! i ! j = ch2 q"
    by blast
  have p0: "obs ! 0 ! 0 ! 0 = 7 \<and> obs ! 1 ! 0 ! 0 = 7 \<and> obs ! 2 ! 0 ! 0 = 7"
    using o(3) [rule_format, of 0 0] by (simp add: Let_def)
  have p1: "obs ! 0 ! 0 ! 1 = 10 \<and> obs ! 1 ! 0 ! 1 = 1 \<and> obs ! 2 ! 0 ! 1 = 9"
    using o(3) [rule_format, of 0 1] by (simp add: Let_def)
  have e: "get_obs ?X toy_wrapper (PyInt 0) =
       Inr (Pixels [[[7, 10]], [[7, 1]], [[7, 9]]],
            toy_wrapper\<lparr>self_bg_source := Some (RandomColorSource (1, 2), 1)\<rparr>)"
    using toy_get_obs_gen [OF toy_wrapper_fields(1-6), of toy_spec "PyInt 0"] by simp
  show ?thesis
    using a f b s1 s2 o(1,2) p0 p1 e by blast
qed

theorem pixel_observation_in_space_witness:
  "(\<forall>s h wd c. has_shape2 h wd (physics_render (toy_world toy_spec) s h wd c))
   \<and> init (toy_world toy_spec) toy_args = Inr toy_wrapper \<and> arg_from_pixels toy_args
   \<and> observation_space toy_wrapper = PixelBox 0 255 [3, 1, 2]
   \<and> pixel_wrapper toy_wrapper
   \<and> reset (toy_world toy_spec) toy_wrapper =
       Inr (Pixels [[[7, 10]], [[7, 1]], [[7, 9]]],
            toy_wrapper\<lparr>self_env := 0, self_bg_source := Some (RandomColorSource (1, 2), 1)\<rparr>)
   \<and> obs_contains (PixelBox 0 255 [3, 1, 2]) (Pixels [[[7, 10]], [[7, 1]], [[7, 9]]])
   \<and> has_shape3 3 1 2 [[[7, 10]], [[7, 1]], [[7, 9 :: 8 word]]]
   \<and> step (toy_world toy_spec) toy_wrapper [Fin 0] =
       Inr ((Pixels [[[7, 10]], [[7, 1]], [[7, 9]]], Fin 2, False,
             \<lparr>internal_state = [Fin 0], discount = Some (Fin 1)\<rparr>),
            toy_wrapper\<lparr>self_env := 2, self_bg_source := Some (RandomColorSource (1, 2), 1)\<rparr>)
   \<and> pixel_wrapper (toy_wrapper\<lparr>self_env := 2,
         self_bg_source := Some (RandomColorSource (1, 2), 1)\<rparr>)"
proof -
  let ?X = "toy_world toy_spec"
  have fp: "arg_from_pixels toy_args" by (simp add: toy_args_def)
  note th = pixel_observation_in_space [OF toy_render_shape [of toy_spec], of toy_args]
  have i: "observation_space toy_wrapper = PixelBox 0 255 [3, 1, 2]" "pixel_wrapper toy_wrapper"
    using th [THEN conjunct1, rule_format, of toy_wrapper] toy_init fp
    by (simp_all add: toy_args_def)
  have r: "obs_contains (PixelBox 0 255 [3, 1, 2]) (Pixels [[[7, 10]], [[7, 1]], [[7, 9]]])"
    "has_shape3 3 1 2 [[[7, 10]], [[7, 1]], [[7, 9 :: 8 word]]]"
    using th [THEN conjunct2, THEN conjunct1, rule_format, OF conjI, OF i(2) toy_reset_eval] i(1)
    by (simp_all add: toy_wrapper_fields observation_space_def)
  have s: "pixel_wrapper (toy_wrapper\<lparr>self_env := 2,
         self_bg_source := Some (RandomColorSource (1, 2), 1)\<rparr>)"
    using th [THEN conjunct2, THEN conjunct2, rule_format, OF conjI, OF i(2) toy_step_eval]
    by (simp add: numeral_2_eq_2)
  show ?thesis
    using toy_render_shape [of toy_spec] toy_init fp i r s toy_reset_eval toy_step_eval
    by (simp add: numeral_2_eq_2)
qed

subsection \<open>The conversion of actions\<close>

text \<open>
  The action spaces that \<open>__init__\<close> builds from a \<open>BoundedArray\<close> action spec with
  finite bounds: the bounds themselves, and \<open>Box(-1, 1)\<close> of the same shape. They are the
  hypotheses on the spaces in the two theorems below.
\<close>

lemma add_zeros_finite:
  "length xs = n \<Longrightarrow> add_zeros (map Fin xs) n = Inr (map Fin xs)"
  by (simp add: add_zeros_def comp_def)

lemma spec_to_box_bounded:
  assumes "spec_to_box [BoundedArray d sh (map Fin lo) (map Fin hi)] = Inr b"
    and "length lo = prod_list sh" and "length hi = prod_list sh"
  shows "b = \<lparr>low = map Fin lo, high = map Fin hi\<rparr>"
  using assms
  by (auto simp: spec_to_box_def extract_min_max_def add_zeros_finite Let_def
      split: if_splits)

lemma init_bounded_spaces:
  assumes "init X args = Inr w"
    and "action_spec X (suite_load X args) = BoundedArray d sh (map Fin lo) (map Fin hi)"
    and "length lo = prod_list sh" and "length hi = prod_list sh"
  shows "low (self_true_action_space w) = map Fin lo
    \<and> high (self_true_action_space w) = map Fin hi
    \<and> self_norm_action_space w =
        \<lparr>low = replicate (length lo) (Fin (- 1)), high = replicate (length lo) (Fin 1)\<rparr>"
proof -
  from init_fields [OF assms(1)] assms(2)
  have b: "spec_to_box [BoundedArray d sh (map Fin lo) (map Fin hi)] =
      Inr (self_true_action_space w)"
    and n: "self_norm_action_space w =
         \<lparr>low = replicate (length (low (self_true_action_space w))) (Fin (- 1)),
          high = replicate (length (low (self_true_action_space w))) (Fin 1)\<rparr>"
    by simp_all
  from spec_to_box_bounded [OF b assms(3,4)]
  have t: "self_true_action_space w = \<lparr>low = map Fin lo, high = map Fin hi\<rparr>" .
  show ?thesis
    using n by (simp add: t)
qed


















end
